theory Spec2Isabelle
  imports Complex_Main "HOL-Library.Sublist" "HOL-Library.Multiset"
begin

section \<open>JavaScript values used by the Twitter/X handler\<close>

text \<open>
  The handler of \<^verbatim>\<open>src/platforms/twitter.js\<close> works on strings and on the numbers that
  \<^verbatim>\<open>Number\<close> reads out of them. A JavaScript number is modelled as a rational or one of
  the three special values. The range of the IEEE-754 doubles is modelled: a literal or a
  product at or beyond the point from which doubles round to infinity is an infinity, and
  one at or below half the smallest double is 0. The rounding to 53 significant bits
  inside that range is not modelled, so the model and an engine read the same number
  wherever the values involved are exactly representable (every integer below
  \<open>2^53\<close>, which covers pixel dimensions and their products). The sign of zero is
  not modelled either: no operation of the handler can tell \<open>-0\<close> from \<open>0\<close>.
  Strings are lists of 8-bit characters.
\<close>

datatype jsnum = NaN | Fin rat | PInf | NInf

text \<open>
  The number for an exact value: from \<open>2^1024 - 2^970\<close> on (half way between the
  largest double and \<open>2^1024\<close>) the value rounds to an infinity, and up to
  \<open>2^-1075\<close> (half the smallest double) it rounds to 0.
\<close>

definition js_finite :: "rat \<Rightarrow> jsnum" where
  "js_finite q =
     (if 2 ^ 1024 - 2 ^ 970 \<le> q then PInf
      else if q \<le> - (2 ^ 1024 - 2 ^ 970) then NInf
      else if \<bar>q\<bar> \<le> 1 / 2 ^ 1075 then Fin 0
      else Fin q)"

text \<open>\<^verbatim>\<open>a * b\<close> on numbers: infinity times zero is NaN, and a product can leave the range.\<close>

fun js_mul :: "jsnum \<Rightarrow> jsnum \<Rightarrow> jsnum" where
  "js_mul NaN b = NaN"
| "js_mul a NaN = NaN"
| "js_mul (Fin a) (Fin b) = js_finite (a * b)"
| "js_mul (Fin a) PInf = (if a = 0 then NaN else if 0 < a then PInf else NInf)"
| "js_mul (Fin a) NInf = (if a = 0 then NaN else if 0 < a then NInf else PInf)"
| "js_mul PInf (Fin b) = (if b = 0 then NaN else if 0 < b then PInf else NInf)"
| "js_mul NInf (Fin b) = (if b = 0 then NaN else if 0 < b then NInf else PInf)"
| "js_mul PInf PInf = PInf"
| "js_mul PInf NInf = NInf"
| "js_mul NInf PInf = NInf"
| "js_mul NInf NInf = PInf"

text \<open>
  \<^verbatim>\<open>a - b\<close> on numbers: the difference of equal infinities is NaN. Only the sign of
  a difference is ever used (by the sort), and leaving the range keeps the sign, so the
  difference of two rationals is kept exact.
\<close>

fun js_sub :: "jsnum \<Rightarrow> jsnum \<Rightarrow> jsnum" where
  "js_sub NaN b = NaN"
| "js_sub a NaN = NaN"
| "js_sub (Fin a) (Fin b) = Fin (a - b)"
| "js_sub (Fin a) PInf = NInf"
| "js_sub (Fin a) NInf = PInf"
| "js_sub PInf (Fin b) = PInf"
| "js_sub NInf (Fin b) = NInf"
| "js_sub PInf PInf = NaN"
| "js_sub PInf NInf = PInf"
| "js_sub NInf PInf = NInf"
| "js_sub NInf NInf = NaN"

text \<open>\<^verbatim>\<open>a >= b\<close> on numbers: false as soon as one side is NaN.\<close>

fun js_ge :: "jsnum \<Rightarrow> jsnum \<Rightarrow> bool" where
  "js_ge NaN b = False"
| "js_ge a NaN = False"
| "js_ge (Fin a) (Fin b) = (b \<le> a)"
| "js_ge (Fin a) PInf = False"
| "js_ge (Fin a) NInf = True"
| "js_ge PInf b = True"
| "js_ge NInf (Fin b) = False"
| "js_ge NInf PInf = False"
| "js_ge NInf NInf = True"

text \<open>\<^verbatim>\<open>v > 0\<close>, the test a sort makes on what its comparator returned (NaN counts as 0).\<close>

fun js_positive :: "jsnum \<Rightarrow> bool" where
  "js_positive (Fin a) = (0 < a)"
| "js_positive PInf = True"
| "js_positive v = False"

text \<open>\<^verbatim>\<open>isNaN(x)\<close> where \<open>x\<close> may be \<^verbatim>\<open>undefined\<close> (\<open>None\<close>), which converts to NaN.\<close>

fun js_isNaN :: "jsnum option \<Rightarrow> bool" where
  "js_isNaN None = True"
| "js_isNaN (Some NaN) = True"
| "js_isNaN (Some v) = False"

text \<open>\<^verbatim>\<open>x || 0\<close> where \<open>x\<close> is a number or \<^verbatim>\<open>undefined\<close>: NaN, 0 and \<^verbatim>\<open>undefined\<close> are falsy.\<close>

fun js_or_zero :: "jsnum option \<Rightarrow> jsnum" where
  "js_or_zero None = Fin 0"
| "js_or_zero (Some NaN) = Fin 0"
| "js_or_zero (Some v) = v"

text \<open>\<^verbatim>\<open>xs[i]\<close>: reading past the end of an array gives \<^verbatim>\<open>undefined\<close>.\<close>

definition js_index :: "'a list \<Rightarrow> nat \<Rightarrow> 'a option" where
  "js_index xs i = (if i < length xs then Some (xs ! i) else None)"

subsection \<open>Strings\<close>

definition is_digit :: "char \<Rightarrow> bool" where
  "is_digit c = (c \<in> set ''0123456789'')"

text \<open>\<^verbatim>\<open>s.split(sep)\<close> for a separator of one character: always at least one piece.\<close>

fun js_split :: "char \<Rightarrow> string \<Rightarrow> string list" where
  "js_split sep [] = [[]]"
| "js_split sep (c # cs) =
     (if c = sep then [] # js_split sep cs
      else (case js_split sep cs of [] \<Rightarrow> [[c]] | p # ps \<Rightarrow> (c # p) # ps))"

text \<open>The value of a run of digits in a base up to 16.\<close>

definition digit_value :: "char \<Rightarrow> nat" where
  "digit_value c =
     (if is_digit c then of_char c - 48
      else if c \<in> set ''abcdef'' then of_char c - 87
      else if c \<in> set ''ABCDEF'' then of_char c - 55
      else 0)"

definition digits_value :: "nat \<Rightarrow> string \<Rightarrow> nat" where
  "digits_value base ds = foldl (\<lambda>n c. base * n + digit_value c) 0 ds"

subsection \<open>\<^verbatim>\<open>Number(string)\<close>\<close>

text \<open>
  The grammar of the language standard for converting a string to a number: white space
  around the literal is dropped; the empty string is 0; \<^verbatim>\<open>0x\<close>, \<^verbatim>\<open>0o\<close> and \<^verbatim>\<open>0b\<close> introduce
  unsigned integers in base 16, 8 and 2; otherwise an optional sign is followed by
  \<^verbatim>\<open>Infinity\<close> or by a decimal literal with an optional fraction and exponent. Everything
  else is NaN. A literal whose value lies outside the range of the doubles reads as an
  infinity or as 0 (\<^verbatim>\<open>1e309\<close> is infinite, as is a run of 400 digits).
\<close>

definition is_js_space :: "char \<Rightarrow> bool" where
  "is_js_space c = (c \<in> set [CHR 0x09, CHR 0x0A, CHR 0x0B, CHR 0x0C, CHR 0x0D, CHR 0x20, CHR 0xA0])"

definition js_trim :: "string \<Rightarrow> string" where
  "js_trim s = rev (dropWhile is_js_space (rev (dropWhile is_js_space s)))"

definition pow10 :: "int \<Rightarrow> rat" where
  "pow10 e = (if 0 \<le> e then 10 ^ nat e else 1 / 10 ^ nat (- e))"

definition exponent_part :: "string \<Rightarrow> int option" where
  "exponent_part r =
     (case r of
        [] \<Rightarrow> Some 0
      | c # r' \<Rightarrow>
          if c = CHR ''e'' \<or> c = CHR ''E'' then
            (let neg = (case r' of [] \<Rightarrow> False | d # _ \<Rightarrow> d = CHR ''-'');
                 ds = (case r' of [] \<Rightarrow> []
                       | d # r'' \<Rightarrow> if d = CHR ''+'' \<or> d = CHR ''-'' then r'' else r')
             in if ds \<noteq> [] \<and> list_all is_digit ds
                then Some (if neg then - int (digits_value 10 ds) else int (digits_value 10 ds))
                else None)
          else None)"

definition str_decimal :: "string \<Rightarrow> rat option" where
  "str_decimal s =
     (let ip = takeWhile is_digit s;
          r1 = dropWhile is_digit s;
          dot = (case r1 of [] \<Rightarrow> False | c # _ \<Rightarrow> c = CHR ''.'');
          fp = (if dot then takeWhile is_digit (tl r1) else []);
          r2 = (if dot then dropWhile is_digit (tl r1) else r1)
      in if ip = [] \<and> fp = [] then None
         else (case exponent_part r2 of
                 None \<Rightarrow> None
               | Some e \<Rightarrow>
                   Some ((of_nat (digits_value 10 ip)
                          + of_nat (digits_value 10 fp) / 10 ^ length fp) * pow10 e)))"

definition str_radix :: "nat \<Rightarrow> string \<Rightarrow> jsnum" where
  "str_radix base ds =
     (if ds \<noteq> [] \<and> list_all (\<lambda>c. (is_digit c \<or> c \<in> set ''abcdefABCDEF'') \<and> digit_value c < base) ds
      then js_finite (of_nat (digits_value base ds)) else NaN)"

definition str_signed :: "string \<Rightarrow> jsnum" where
  "str_signed t =
     (let neg = (case t of [] \<Rightarrow> False | c # _ \<Rightarrow> c = CHR ''-'');
          u = (case t of [] \<Rightarrow> []
               | c # r \<Rightarrow> if c = CHR ''+'' \<or> c = CHR ''-'' then r else t)
      in if u = ''Infinity'' then (if neg then NInf else PInf)
         else (case str_decimal u of
                 None \<Rightarrow> NaN
               | Some q \<Rightarrow> js_finite (if neg then - q else q)))"

definition js_Number :: "string \<Rightarrow> jsnum" where
  "js_Number s =
     (let t = js_trim s
      in if t = [] then Fin 0
         else (case t of
                 c0 # c1 # ds \<Rightarrow>
                   if c0 = CHR ''0'' \<and> (c1 = CHR ''x'' \<or> c1 = CHR ''X'') then str_radix 16 ds
                   else if c0 = CHR ''0'' \<and> (c1 = CHR ''o'' \<or> c1 = CHR ''O'') then str_radix 8 ds
                   else if c0 = CHR ''0'' \<and> (c1 = CHR ''b'' \<or> c1 = CHR ''B'') then str_radix 2 ds
                   else str_signed t
               | _ \<Rightarrow> str_signed t))"

section \<open>Resolution Parser and Quality Classifier\<close>

text \<open>
  \<^verbatim>\<open>parseResolution\<close> (twitter.js, lines 589-598). The argument is \<open>None\<close> when the
  caller passes \<^verbatim>\<open>undefined\<close> or \<^verbatim>\<open>null\<close>; the empty string is falsy as well.
\<close>

record dims =
  width :: jsnum
  height :: jsnum

definition parseResolution :: "string option \<Rightarrow> dims" where
  "parseResolution resolution =
     (case resolution of
        None \<Rightarrow> \<lparr>width = Fin 0, height = Fin 0\<rparr>
      | Some s \<Rightarrow>
          if s = [] \<or> s = ''unknown'' \<or> s = ''undefinedxundefined''
          then \<lparr>width = Fin 0, height = Fin 0\<rparr>
          else (let parts = map js_Number (js_split (CHR ''x'') s)
                in \<lparr>width = js_or_zero (js_index parts 0),
                    height = js_or_zero (js_index parts 1)\<rparr>))"

text \<open>\<^verbatim>\<open>getQualityFromResolution\<close> (lines 558-581), with the source's order of tests.\<close>

definition getQualityFromResolution :: "string option \<Rightarrow> string" where
  "getQualityFromResolution resolution =
     (case resolution of
        None \<Rightarrow> ''unknown''
      | Some s \<Rightarrow>
          if s = [] \<or> s = ''unknown'' \<or> s = ''undefinedxundefined'' then ''unknown''
          else (let parts = map js_Number (js_split (CHR ''x'') s);
                    w = js_index parts 0;
                    h = js_index parts 1
                in if js_isNaN w \<or> js_isNaN h then ''unknown''
                   else (let width = the w; height = the h
                         in if width = Fin 480 \<and> height = Fin 270 then ''480p''
                            else if width = Fin 640 \<and> height = Fin 360 then ''360p''
                            else if width = Fin 854 \<and> height = Fin 480 then ''480p''
                            else if width = Fin 1280 \<and> height = Fin 720 then ''720p''
                            else if width = Fin 1920 \<and> height = Fin 1080 then ''1080p''
                            else if width = Fin 2560 \<and> height = Fin 1440 then ''1440p''
                            else if width = Fin 3840 \<and> height = Fin 2160 then ''4K''
                            else if js_ge width (Fin 3840) \<or> js_ge height (Fin 2160) then ''4K''
                            else if js_ge width (Fin 2560) \<or> js_ge height (Fin 1440) then ''1440p''
                            else if js_ge width (Fin 1920) \<or> js_ge height (Fin 1080) then ''1080p''
                            else if js_ge width (Fin 1280) \<or> js_ge height (Fin 720) then ''720p''
                            else if js_ge width (Fin 854) \<or> js_ge height (Fin 480) then ''480p''
                            else if js_ge width (Fin 640) \<or> js_ge height (Fin 360) then ''360p''
                            else ''unknown'')))"


text \<open>
  \<^verbatim>\<open>getResolutionFromUrl\<close> (lines 583-587): the leftmost match of
  \<^verbatim>\<open>/\/(\d+)x(\d+)\//\<close>. Both groups are greedy runs of digits followed by a
  character that is no digit, so the maximal runs are the only way to match.
\<close>

definition match_resolution_here :: "string \<Rightarrow> string option" where
  "match_resolution_here s =
     (case s of
        [] \<Rightarrow> None
      | c # r \<Rightarrow>
          if c \<noteq> CHR ''/'' then None
          else (let w = takeWhile is_digit r; r1 = dropWhile is_digit r
                in if w = [] then None
                   else (case r1 of
                           [] \<Rightarrow> None
                         | x # r2 \<Rightarrow>
                             if x \<noteq> CHR ''x'' then None
                             else (let h = takeWhile is_digit r2; r3 = dropWhile is_digit r2
                                   in if h = [] then None
                                      else (case r3 of
                                              [] \<Rightarrow> None
                                            | e # _ \<Rightarrow>
                                                if e = CHR ''/'' then Some (w @ ''x'' @ h)
                                                else None)))))"

fun match_resolution :: "string \<Rightarrow> string option" where
  "match_resolution [] = None"
| "match_resolution (c # cs) =
     (case match_resolution_here (c # cs) of
        Some r \<Rightarrow> Some r
      | None \<Rightarrow> match_resolution cs)"

definition getResolutionFromUrl :: "string option \<Rightarrow> string option" where
  "getResolutionFromUrl url =
     (case url of
        None \<Rightarrow> None
      | Some u \<Rightarrow> if u = [] then None else match_resolution u)"

text \<open>
  \<^verbatim>\<open>extractStatusIdFromUrl\<close> (lines 600-603): the leftmost match of \<^verbatim>\<open>/\d{10,}/\<close>,
  which is greedy and so takes the whole run of digits it starts in.
\<close>

fun extractStatusIdFromUrl :: "string \<Rightarrow> string option" where
  "extractStatusIdFromUrl [] = None"
| "extractStatusIdFromUrl (c # cs) =
     (let run = takeWhile is_digit (c # cs)
      in if 10 \<le> length run then Some run else extractStatusIdFromUrl cs)"

text \<open>A string contains a run of at least \<open>n\<close> consecutive digits.\<close>

definition has_digit_run :: "nat \<Rightarrow> string \<Rightarrow> bool" where
  "has_digit_run n s = list_ex (\<lambda>t. n \<le> length (takeWhile is_digit t)) (suffixes s)"

section \<open>Media items and their variants\<close>

text \<open>
  The objects the extractors build. A field the source may leave unset is an option.
  The extractors always set \<^verbatim>\<open>quality\<close> and \<^verbatim>\<open>resolution\<close> of a variant to
  strings and \<^verbatim>\<open>variants\<close> of an item to an array, and \<^verbatim>\<open>type\<close> is one of
  \<^verbatim>\<open>'photo'\<close>, \<^verbatim>\<open>'video'\<close>, \<^verbatim>\<open>'gif'\<close>.
\<close>

datatype media_type = Photo | Video | Gif

record variant =
  url :: "string option"
  quality :: string
  bitrate :: "nat option"
  content_type :: "string option"
  resolution :: string

record media_item =
  type :: media_type
  url :: "string option"
  download_url :: "string option"
  thumbnail_url :: "string option"
  duration :: "rat option"
  width :: "nat option"
  height :: "nat option"
  size_str :: "string option"
  variants :: "variant list"
  best_quality :: "string option"
  available_qualities :: "string list option"
  available_resolutions :: "string list option"

section \<open>Variant Ranker\<close>

text \<open>
  \<^verbatim>\<open>Array.prototype.sort\<close> with a comparator. The language standard makes the sort
  stable and fixes its result whenever the comparator is consistent; that result is the
  one of a stable insertion sort, which is the model. An element moves behind a later
  one only when the comparator returns a positive number for the pair; NaN counts as 0.
  For an inconsistent comparator, which the comparators of this handler are as soon as
  a pixel area is NaN, the standard leaves the order to the engine, and an engine's
  merge sort and this insertion sort then need not return the same list; the model is
  used at such a list only where both leave the list as it is.
\<close>

fun js_insert :: "('a \<Rightarrow> 'a \<Rightarrow> jsnum) \<Rightarrow> 'a \<Rightarrow> 'a list \<Rightarrow> 'a list" where
  "js_insert cmp x [] = [x]"
| "js_insert cmp x (y # ys) =
     (if js_positive (cmp x y) then y # js_insert cmp x ys else x # y # ys)"

definition js_sort :: "('a \<Rightarrow> 'a \<Rightarrow> jsnum) \<Rightarrow> 'a list \<Rightarrow> 'a list" where
  "js_sort cmp xs = foldr (js_insert cmp) xs []"

text \<open>\<^verbatim>\<open>[...new Set(xs)]\<close>: the distinct elements in the order of their first occurrence.\<close>

definition js_set_add :: "'a list \<Rightarrow> 'a \<Rightarrow> 'a list" where
  "js_set_add acc x = (if x \<in> set acc then acc else acc @ [x])"

definition js_unique :: "'a list \<Rightarrow> 'a list" where
  "js_unique xs = foldl js_set_add [] xs"

text \<open>The pixel area of a variant and the comparator of lines 537-543.\<close>

definition pixels :: "variant \<Rightarrow> jsnum" where
  "pixels v =
     (let res = parseResolution (Some (resolution v))
      in js_mul (dims.width res) (dims.height res))"

definition by_pixels :: "variant \<Rightarrow> variant \<Rightarrow> jsnum" where
  "by_pixels a b = js_sub (pixels b) (pixels a)"

text \<open>A string is truthy when it is not empty.\<close>

definition known :: "string \<Rightarrow> bool" where
  "known q = (q \<noteq> [] \<and> q \<noteq> ''unknown'')"

text \<open>
  The body of the \<^verbatim>\<open>map\<close> callback of \<^verbatim>\<open>enhanceMediaWithResolutions\<close>
  (lines 526-555) and the function itself. The item is updated in place and returned.
\<close>

definition enhance_item :: "media_item \<Rightarrow> media_item" where
  "enhance_item item =
     (if type item = Video \<or> type item = Gif then
        (let item1 =
               (if variants item = [] then
                  (let resolution =
                         (case getResolutionFromUrl (media_item.url item) of
                            Some r \<Rightarrow> r
                          | None \<Rightarrow>
                              (case size_str item of
                                 None \<Rightarrow> ''unknown''
                               | Some s \<Rightarrow> if s = [] then ''unknown'' else s))
                   in item\<lparr>variants :=
                        [\<lparr>variant.url = media_item.url item,
                          quality = getQualityFromResolution (Some resolution),
                          bitrate = None,
                          content_type = None,
                          resolution = resolution\<rparr>]\<rparr>)
                else item);
             item2 = item1\<lparr>variants := js_sort by_pixels (variants item1)\<rparr>
         in (case variants item2 of
               [] \<Rightarrow> item2
             | v0 # _ \<Rightarrow>
                 item2\<lparr>media_item.url := variant.url v0,
                       download_url := variant.url v0,
                       best_quality := Some (quality v0),
                       available_qualities :=
                         Some (js_unique (filter known (map quality (variants item2)))),
                       available_resolutions :=
                         Some (js_unique (filter known (map resolution (variants item2))))\<rparr>))
      else item)"

definition enhanceMediaWithResolutions :: "media_item list \<Rightarrow> string \<Rightarrow> media_item list" where
  "enhanceMediaWithResolutions mediaItems tweetId = map enhance_item mediaItems"


section \<open>Extractors\<close>

text \<open>
  What a \<^verbatim>\<open>fetch\<close> of a JSON endpoint comes to: the call or the decoding of the body
  throws, the response is not ok, or the body decodes to a payload.
\<close>

datatype 'a fetched = Fetch_failed | Not_ok | Ok_json 'a

text \<open>
  A template string \<^verbatim>\<open>`${w}x${h}`\<close> over two dimensions of a payload. The payloads are
  typed here: a dimension is a natural number when present and renders as
  \<^verbatim>\<open>undefined\<close> when absent. The rendering writes every digit, as the template does
  for numbers below \<open>10^21\<close> (from there on the template uses the exponent form).
  Dimensions that are no natural numbers (a fraction, a string, a number beyond the
  doubles) are not payloads of this type; the labels they would give are still labels
  of variants, over which the Ranker is stated for every string.
\<close>

definition digit_char :: "nat \<Rightarrow> char" where
  "digit_char d = ''0123456789'' ! (d mod 10)"

function show_nat :: "nat \<Rightarrow> string" where
  "show_nat n = (if n < 10 then [digit_char n] else show_nat (n div 10) @ [digit_char (n mod 10)])"
  by pat_completeness auto
termination
  by (relation "measure (\<lambda>n. n)") auto

definition show_dim :: "nat option \<Rightarrow> string" where
  "show_dim d = (case d of None \<Rightarrow> ''undefined'' | Some n \<Rightarrow> show_nat n)"

definition size_of :: "nat option \<Rightarrow> nat option \<Rightarrow> string" where
  "size_of w h = show_dim w @ ''x'' @ show_dim h"

text \<open>\<^verbatim>\<open>s || d\<close> for a string that may be absent: absent and empty strings are falsy.\<close>

definition or_else :: "string option \<Rightarrow> string \<Rightarrow> string" where
  "or_else s d = (case s of None \<Rightarrow> d | Some t \<Rightarrow> if t = [] then d else t)"

text \<open>The result objects of the three extractors.\<close>

record user =
  name :: string
  screen_name :: string
  profile_image_url :: string

datatype created = Created_text string | Created_seconds int

record candidate =
  "method" :: string
  user :: user
  "text" :: string
  created_at :: created
  media :: "media_item list"

subsection \<open>Source A: \<^verbatim>\<open>fetchViaSyndicationAPI\<close> (lines 196-340)\<close>

record syndication_user =
  name :: "string option"
  screen_name :: "string option"
  profile_image_url_https :: "string option"

record syndication_photo =
  url :: string
  width :: "nat option"
  height :: "nat option"

record syndication_variant =
  type :: "string option"
  src :: "string option"
  bitrate :: "nat option"
  content_type :: "string option"

record syndication_video =
  thumbnail_url :: "string option"
  duration :: "rat option"
  width :: "nat option"
  height :: "nat option"
  variants :: "syndication_variant list option"

record syndication_data =
  user :: "syndication_user option"
  "text" :: "string option"
  created_at :: "string option"
  photos :: "syndication_photo list option"
  video :: "syndication_video option"
  animated_gif :: "syndication_video option"

text \<open>Lines 235-248: one item for each photo.\<close>

definition syndication_photo_item :: "syndication_photo \<Rightarrow> media_item" where
  "syndication_photo_item photo =
     \<lparr>media_item.type = Photo,
      url = Some (syndication_photo.url photo),
      download_url = Some (syndication_photo.url photo @ ''?format=jpg&name=orig''),
      thumbnail_url = None,
      duration = None,
      width = syndication_photo.width photo,
      height = syndication_photo.height photo,
      size_str = Some (size_of (syndication_photo.width photo) (syndication_photo.height photo)),
      variants =
        [\<lparr>variant.url = Some (syndication_photo.url photo @ ''?format=jpg&name=orig''),
          quality = ''original'',
          bitrate = None,
          content_type = None,
          resolution = size_of (syndication_photo.width photo) (syndication_photo.height photo)\<rparr>],
      best_quality = None,
      available_qualities = None,
      available_resolutions = None\<rparr>"

text \<open>Lines 267-273 and 307-313: a reported rendition as a variant of a video or gif.\<close>

definition syndication_variant_of :: "syndication_video \<Rightarrow> syndication_variant \<Rightarrow> variant" where
  "syndication_variant_of v variant =
     (let resolution =
            (case getResolutionFromUrl (src variant) of
               Some r \<Rightarrow> r
             | None \<Rightarrow> size_of (syndication_video.width v) (syndication_video.height v))
      in \<lparr>variant.url = src variant,
          quality = getQualityFromResolution (Some resolution),
          bitrate = syndication_variant.bitrate variant,
          content_type = Some (or_else (syndication_variant.content_type variant) ''video/mp4''),
          resolution = resolution\<rparr>)"

text \<open>Lines 253-291: the item of the video, with every MP4 rendition that has a source.\<close>

definition syndication_video_item :: "syndication_video \<Rightarrow> media_item" where
  "syndication_video_item v =
     (let videoItem =
            \<lparr>media_item.type = Video,
             url = None,
             download_url = None,
             thumbnail_url = syndication_video.thumbnail_url v,
             duration = syndication_video.duration v,
             width = syndication_video.width v,
             height = syndication_video.height v,
             size_str = Some (size_of (syndication_video.width v) (syndication_video.height v)),
             variants = [],
             best_quality = None,
             available_qualities = None,
             available_resolutions = None\<rparr>
      in (case syndication_video.variants v of
            None \<Rightarrow> videoItem
          | Some vs \<Rightarrow>
              (let mp4Variants =
                     js_sort by_pixels
                       (map (syndication_variant_of v)
                          (filter (\<lambda>x. syndication_variant.type x = Some ''video/mp4''
                                        \<and> or_else (src x) [] \<noteq> []) vs))
               in (case mp4Variants of
                     [] \<Rightarrow> videoItem\<lparr>media_item.variants := mp4Variants\<rparr>
                   | v0 # _ \<Rightarrow>
                       videoItem\<lparr>media_item.variants := mp4Variants,
                                 media_item.url := variant.url v0,
                                 download_url := variant.url v0,
                                 best_quality := Some (quality v0)\<rparr>))))"

text \<open>Lines 294-330: the item of the animated image; a rendition needs no source here.\<close>

definition syndication_gif_item :: "syndication_video \<Rightarrow> media_item" where
  "syndication_gif_item g =
     (let gifItem =
            \<lparr>media_item.type = Gif,
             url = None,
             download_url = None,
             thumbnail_url = syndication_video.thumbnail_url g,
             duration = None,
             width = syndication_video.width g,
             height = syndication_video.height g,
             size_str = Some (size_of (syndication_video.width g) (syndication_video.height g)),
             variants = [],
             best_quality = None,
             available_qualities = None,
             available_resolutions = None\<rparr>
      in (case syndication_video.variants g of
            None \<Rightarrow> gifItem
          | Some vs \<Rightarrow>
              (let gifVariants =
                     js_sort by_pixels
                       (map (syndication_variant_of g)
                          (filter (\<lambda>x. syndication_variant.type x = Some ''video/mp4'') vs))
               in (case gifVariants of
                     [] \<Rightarrow> gifItem\<lparr>media_item.variants := gifVariants\<rparr>
                   | v0 # _ \<Rightarrow>
                       gifItem\<lparr>media_item.variants := gifVariants,
                               media_item.url := variant.url v0,
                               download_url := variant.url v0\<rparr>))))"


text \<open>Lines 221-231 and 332: the result built from a payload that has a media field.\<close>

definition syndication_result :: "string \<Rightarrow> syndication_data \<Rightarrow> candidate" where
  "syndication_result now_iso data =
     (let u = syndication_data.user data
      in \<lparr>candidate.method = ''api_a'',
          user =
            \<lparr>user.name = or_else (Option.bind u syndication_user.name) ''Unknown'',
             screen_name = or_else (Option.bind u syndication_user.screen_name) ''unknown'',
             profile_image_url = or_else (Option.bind u profile_image_url_https) []\<rparr>,
          text = or_else (syndication_data.text data) [],
          created_at = Created_text (or_else (syndication_data.created_at data) now_iso),
          media =
            (case photos data of None \<Rightarrow> [] | Some ps \<Rightarrow> map syndication_photo_item ps)
            @ (case video data of None \<Rightarrow> [] | Some v \<Rightarrow> [syndication_video_item v])
            @ (case animated_gif data of None \<Rightarrow> [] | Some g \<Rightarrow> [syndication_gif_item g])\<rparr>)"

text \<open>
  Lines 204-335: the endpoints are tried in order. A response that is not ok, or whose
  payload has none of the three media fields, passes to the next endpoint; an exception
  leaves the loop and is swallowed (line 336), as is running out of endpoints.
\<close>

fun syndication_attempts :: "string \<Rightarrow> syndication_data fetched list \<Rightarrow> candidate option" where
  "syndication_attempts now_iso [] = None"
| "syndication_attempts now_iso (Fetch_failed # rest) = None"
| "syndication_attempts now_iso (Not_ok # rest) = syndication_attempts now_iso rest"
| "syndication_attempts now_iso (Ok_json data # rest) =
     (if photos data \<noteq> None \<or> video data \<noteq> None \<or> animated_gif data \<noteq> None
      then Some (syndication_result now_iso data)
      else syndication_attempts now_iso rest)"

subsection \<open>Source B: \<^verbatim>\<open>fetchViaFxtwitterAPI\<close> (lines 342-415)\<close>

record fx_author =
  name :: "string option"
  screen_name :: "string option"
  avatar_url :: "string option"

record fx_media =
  type :: string
  url :: "string option"
  thumbnail_url :: "string option"
  duration :: "rat option"
  width :: "nat option"
  height :: "nat option"

record fx_media_block =
  all_media :: "fx_media list option"

record fx_tweet =
  author :: "fx_author option"
  "text" :: "string option"
  created_timestamp :: "int option"
  media :: "fx_media_block option"

record fx_data =
  tweet :: "fx_tweet option"

text \<open>Lines 370-406: the callback over \<^verbatim>\<open>data.tweet.media.all\<close>; other elements are skipped.\<close>

definition fx_media_item :: "fx_media \<Rightarrow> media_item option" where
  "fx_media_item m =
     (if fx_media.type m = ''photo'' \<and> or_else (fx_media.url m) [] \<noteq> [] then
        Some \<lparr>media_item.type = Photo,
              url = fx_media.url m,
              download_url = fx_media.url m,
              thumbnail_url = None,
              duration = None,
              width = fx_media.width m,
              height = fx_media.height m,
              size_str = Some (size_of (fx_media.width m) (fx_media.height m)),
              variants =
                [\<lparr>variant.url = fx_media.url m,
                  quality = ''original'',
                  bitrate = None,
                  content_type = None,
                  resolution = size_of (fx_media.width m) (fx_media.height m)\<rparr>],
              best_quality = None,
              available_qualities = None,
              available_resolutions = None\<rparr>
      else if (fx_media.type m = ''video'' \<or> fx_media.type m = ''gif'')
              \<and> or_else (fx_media.url m) [] \<noteq> [] then
        Some \<lparr>media_item.type = (if fx_media.type m = ''video'' then Video else Gif),
              url = fx_media.url m,
              download_url = fx_media.url m,
              thumbnail_url = fx_media.thumbnail_url m,
              duration = fx_media.duration m,
              width = fx_media.width m,
              height = fx_media.height m,
              size_str = Some (size_of (fx_media.width m) (fx_media.height m)),
              variants =
                [\<lparr>variant.url = fx_media.url m,
                  quality =
                    getQualityFromResolution
                      (Some (size_of (fx_media.width m) (fx_media.height m))),
                  bitrate = None,
                  content_type = None,
                  resolution = size_of (fx_media.width m) (fx_media.height m)\<rparr>],
              best_quality = None,
              available_qualities = None,
              available_resolutions = None\<rparr>
      else None)"

text \<open>
  The whole extractor on what the fetch came to. A payload without \<^verbatim>\<open>tweet\<close> or
  \<^verbatim>\<open>tweet.media\<close> gives no result; one whose \<^verbatim>\<open>media.all\<close> is missing throws inside
  the \<^verbatim>\<open>try\<close>, which gives no result either. A timestamp of 0 is falsy.
\<close>

definition fxtwitter_result :: "string \<Rightarrow> fx_data fetched \<Rightarrow> candidate option" where
  "fxtwitter_result now_iso response =
     (case response of
        Fetch_failed \<Rightarrow> None
      | Not_ok \<Rightarrow> None
      | Ok_json data \<Rightarrow>
          (case tweet data of
             None \<Rightarrow> None
           | Some t \<Rightarrow>
               (case fx_tweet.media t of
                  None \<Rightarrow> None
                | Some block \<Rightarrow>
                    (case all_media block of
                       None \<Rightarrow> None
                     | Some ms \<Rightarrow>
                         Some \<lparr>candidate.method = ''api_b'',
                               user =
                                 \<lparr>user.name =
                                    or_else (Option.bind (author t) fx_author.name) ''Unknown'',
                                  screen_name =
                                    or_else (Option.bind (author t) fx_author.screen_name) ''unknown'',
                                  profile_image_url =
                                    or_else (Option.bind (author t) avatar_url) []\<rparr>,
                               text = or_else (fx_tweet.text t) [],
                               created_at =
                                 (case created_timestamp t of
                                    None \<Rightarrow> Created_text now_iso
                                  | Some n \<Rightarrow>
                                      if n = 0 then Created_text now_iso else Created_seconds n),
                               media = List.map_filter fx_media_item ms\<rparr>))))"

subsection \<open>The runtime of one request\<close>

text \<open>
  What the handler reads from outside during one request: the responses of the two JSON
  services by address, the outcome of \<^verbatim>\<open>fetchViaHTMLScraping\<close> (lines 417-484, which
  returns no result or a result with at least one video item) by identifier, the current
  time as \<^verbatim>\<open>new Date().toISOString()\<close> gives it, and \<^verbatim>\<open>new Date(x).toISOString()\<close>
  for a string or a number of milliseconds, which throws (\<open>None\<close>) on an invalid date.
\<close>

datatype date_arg = Date_string string | Date_millis int

record runtime =
  fetch_syndication :: "string \<Rightarrow> syndication_data fetched"
  fetch_fxtwitter :: "string \<Rightarrow> fx_data fetched"
  fetchViaHTMLScraping :: "string \<Rightarrow> candidate option"
  now :: string
  toISOString :: "date_arg \<Rightarrow> string option"

definition fetchViaSyndicationAPI :: "runtime \<Rightarrow> string \<Rightarrow> candidate option" where
  "fetchViaSyndicationAPI rt tweetId =
     syndication_attempts (now rt)
       (map (fetch_syndication rt)
          [''https://cdn.syndication.twimg.com/tweet-result?id='' @ tweetId,
           ''https://cdn.syndication.twimg.com/tweet-result?id='' @ tweetId @ ''&token=abc123'',
           ''https://cdn.syndication.twimg.com/tweet-result?id='' @ tweetId @ ''&lang=en''])"

definition fetchViaFxtwitterAPI :: "runtime \<Rightarrow> string \<Rightarrow> candidate option" where
  "fetchViaFxtwitterAPI rt tweetId =
     fxtwitter_result (now rt)
       (fetch_fxtwitter rt (''https://api.fxtwitter.com/twitter/status/'' @ tweetId))"


section \<open>Download summary: \<^verbatim>\<open>generateDownloadInfo\<close> (lines 605-666)\<close>

record download_info =
  tweet_id :: string
  user_name :: string
  user_id :: string
  date_time :: string
  media_count :: nat
  total_files :: nat
  total_variants :: nat
  highest_quality :: string
  available_qualities :: "string list"
  available_resolutions :: "string list"
  filename_default :: string
  filename_simple :: string
  filename_with_date :: string

text \<open>
  \<^verbatim>\<open>qualityOrder[q] || 0\<close> as an operand of a subtraction. The table is an object
  literal, so the names it inherits are found too; they hold functions or an object,
  which are truthy and convert to NaN.
\<close>

definition qualityOrder :: "string \<Rightarrow> jsnum" where
  "qualityOrder q =
     (if q = ''4K'' then Fin 6
      else if q = ''1440p'' then Fin 5
      else if q = ''1080p'' then Fin 4
      else if q = ''720p'' then Fin 3
      else if q = ''480p'' then Fin 2
      else if q = ''360p'' then Fin 1
      else if q \<in> set [''constructor'', ''hasOwnProperty'', ''isPrototypeOf'',
                        ''propertyIsEnumerable'', ''toLocaleString'', ''toString'', ''valueOf'',
                        ''__defineGetter__'', ''__defineSetter__'', ''__lookupGetter__'',
                        ''__lookupSetter__'', ''__proto__'']
      then NaN
      else Fin 0)"

definition by_quality :: "string \<Rightarrow> string \<Rightarrow> jsnum" where
  "by_quality a b = js_sub (qualityOrder b) (qualityOrder a)"

definition by_resolution :: "string \<Rightarrow> string \<Rightarrow> jsnum" where
  "by_resolution a b =
     (let resA = parseResolution (Some a); resB = parseResolution (Some b)
      in js_sub (js_mul (dims.width resB) (dims.height resB))
                (js_mul (dims.width resA) (dims.height resA)))"

fun replace_first :: "char \<Rightarrow> char \<Rightarrow> string \<Rightarrow> string" where
  "replace_first a b [] = []"
| "replace_first a b (c # cs) = (if c = a then b # cs else c # replace_first a b cs)"

definition formattedDate :: "string \<Rightarrow> string" where
  "formattedDate isoString =
     (case js_split (CHR ''.'')
             (replace_first (CHR ''T'') (CHR ''-'')
                (filter (\<lambda>c. c \<noteq> CHR ''-'' \<and> c \<noteq> CHR '':'') isoString)) of
        [] \<Rightarrow> []
      | p # _ \<Rightarrow> p)"

definition cleanName :: "string \<Rightarrow> string" where
  "cleanName str =
     take 50
       (map (\<lambda>c. if c \<in> set [CHR 0x5C, CHR ''/'', CHR '':'', CHR ''*'', CHR ''?'', CHR 0x22,
                              CHR ''<'', CHR ''>'', CHR ''|'']
                  then CHR ''_'' else c)
          (or_else (Some str) ''unknown''))"

text \<open>
  The summary of a result. Building the date throws when the timestamp is no valid date,
  which is the only way for this function to fail.
\<close>

definition generateDownloadInfo :: "runtime \<Rightarrow> candidate \<Rightarrow> string \<Rightarrow> download_info option" where
  "generateDownloadInfo rt mediaData tweetId =
     (let isoString =
            (case candidate.created_at mediaData of
               Created_text s \<Rightarrow>
                 if s = [] then Some (now rt) else toISOString rt (Date_string s)
             | Created_seconds n \<Rightarrow>
                 if n = 0 then Some (now rt) else toISOString rt (Date_millis n))
      in (case isoString of
            None \<Rightarrow> None
          | Some d \<Rightarrow>
              (let userScreenName =
                     or_else (Some (user.screen_name (candidate.user mediaData))) ''unknown'';
                   userName = or_else (Some (user.name (candidate.user mediaData))) ''Unknown'';
                   vs = concat (map media_item.variants (candidate.media mediaData));
                   sortedQualities =
                     js_sort by_quality (js_unique (filter known (map quality vs)));
                   sortedResolutions =
                     js_sort by_resolution (js_unique (filter known (map resolution vs)))
               in Some
                    \<lparr>tweet_id = tweetId,
                     user_name = cleanName userName,
                     user_id = userScreenName,
                     date_time = formattedDate d,
                     media_count = length (candidate.media mediaData),
                     total_files = length (candidate.media mediaData),
                     total_variants = length vs,
                     highest_quality = (case sortedQualities of [] \<Rightarrow> ''unknown'' | q # _ \<Rightarrow> q),
                     available_qualities = sortedQualities,
                     available_resolutions = sortedResolutions,
                     filename_default = ''content_'' @ cleanName userName @ ''_'' @ tweetId,
                     filename_simple = userScreenName @ ''_'' @ tweetId,
                     filename_with_date =
                       formattedDate d @ ''_'' @ userScreenName @ ''_'' @ tweetId\<rparr>)))"

section \<open>Result Merger: \<^verbatim>\<open>handleScrapeRequestDirect\<close> (lines 124-191)\<close>

text \<open>
  A response is a status and a JSON body; \<^verbatim>\<open>success\<close> is false in a failure body and
  true in a success body.
\<close>

record success_body =
  url :: string
  tweet_id :: string
  "method" :: string
  user :: user
  "text" :: string
  created_at :: string
  media :: "media_item list"
  media_count :: nat
  download_info :: download_info

datatype body = Failure (error: string) (echoed_id: "string option") | Success (payload: success_body)

record response =
  status :: nat
  body :: body

definition success :: "response \<Rightarrow> bool" where
  "success r = (case body r of Failure e i \<Rightarrow> False | Success p \<Rightarrow> True)"

text \<open>The calls to the upstream sources that a request made, in order.\<close>

datatype upstream_call = Call_syndication string | Call_fxtwitter string | Call_html string

definition no_media :: "candidate option \<Rightarrow> bool" where
  "no_media result = (case result of None \<Rightarrow> True | Some r \<Rightarrow> candidate.media r = [])"

definition service_error :: response where
  "service_error = \<lparr>status = 500, body = Failure ''Service error'' None\<rparr>"

text \<open>
  The argument is \<open>None\<close> when the caller passes a value that is no string (the POST
  route does so for a body without a string \<^verbatim>\<open>url\<close>): the call of \<^verbatim>\<open>match\<close> then
  throws, and every exception inside the handler ends in the response of line 186.
\<close>

definition handleScrapeRequestDirect ::
    "runtime \<Rightarrow> string option \<Rightarrow> response \<times> upstream_call list" where
  "handleScrapeRequestDirect rt tweetUrl =
     (case tweetUrl of
        None \<Rightarrow> (service_error, [])
      | Some u \<Rightarrow>
          (case extractStatusIdFromUrl u of
             None \<Rightarrow> (\<lparr>status = 400, body = Failure ''Invalid URL'' None\<rparr>, [])
           | Some statusId \<Rightarrow>
               (let syndicationResult = fetchViaSyndicationAPI rt statusId;
                    fxtwitterResult = fetchViaFxtwitterAPI rt statusId;
                    first = (case syndicationResult of Some r \<Rightarrow> Some r | None \<Rightarrow> fxtwitterResult);
                    result = (if no_media first then fetchViaHTMLScraping rt statusId else first);
                    calls = [Call_syndication statusId, Call_fxtwitter statusId]
                            @ (if no_media first then [Call_html statusId] else [])
                in (case result of
                      None \<Rightarrow>
                        (\<lparr>status = 404,
                          body = Failure ''Content not available'' (Some statusId)\<rparr>, calls)
                    | Some r \<Rightarrow>
                        if candidate.media r = [] then
                          (\<lparr>status = 404,
                            body = Failure ''Content not available'' (Some statusId)\<rparr>, calls)
                        else
                          (let r1 =
                                 (if \<not> no_media syndicationResult then
                                    r\<lparr>candidate.media :=
                                         enhanceMediaWithResolutions
                                           (candidate.media (the syndicationResult)) statusId,
                                       candidate.method := ''api_a''\<rparr>
                                  else
                                    r\<lparr>candidate.media :=
                                         enhanceMediaWithResolutions (candidate.media r) statusId\<rparr>);
                               fixed =
                                 (case candidate.created_at r1 of
                                    Created_text s \<Rightarrow> Some s
                                  | Created_seconds n \<Rightarrow> toISOString rt (Date_millis (n * 1000)))
                           in (case fixed of
                                 None \<Rightarrow> (service_error, calls)
                               | Some created \<Rightarrow>
                                   (let r2 = r1\<lparr>candidate.created_at := Created_text created\<rparr>
                                    in (case generateDownloadInfo rt r2 statusId of
                                          None \<Rightarrow> (service_error, calls)
                                        | Some info \<Rightarrow>
                                            (\<lparr>status = 200,
                                              body =
                                                Success
                                                  \<lparr>url = u,
                                                   tweet_id = statusId,
                                                   method = or_else (Some (candidate.method r2)) ''standard'',
                                                   user = candidate.user r2,
                                                   text = candidate.text r2,
                                                   created_at = created,
                                                   media = candidate.media r2,
                                                   media_count = length (candidate.media r2),
                                                   download_info = info\<rparr>\<rparr>,
                                             calls)))))))))"

text \<open>
  \<^verbatim>\<open>handleScrapeRequest\<close> (lines 689-699): the POST route. The argument is \<open>None\<close> when
  reading the body throws, that is when the body is no JSON text or decodes to
  \<^verbatim>\<open>null\<close>. Every other body destructures without an exception: the argument is
  \<open>Some (Some u)\<close> when the decoded value has a property \<^verbatim>\<open>url\<close> that is the string
  \<open>u\<close>, and \<open>Some None\<close> when it has no such property or the property is no string
  (an object without \<^verbatim>\<open>url\<close>, a number, a string, an array), which the handler below
  answers with status 500.
\<close>

definition handleScrapeRequest ::
    "runtime \<Rightarrow> string option option \<Rightarrow> response \<times> upstream_call list" where
  "handleScrapeRequest rt request =
     (case request of
        None \<Rightarrow> (\<lparr>status = 400, body = Failure ''Invalid request'' None\<rparr>, [])
      | Some u \<Rightarrow> handleScrapeRequestDirect rt u)"


section \<open>The specification's reading of the parser and the classifier\<close>

text \<open>
  The number that \<^verbatim>\<open>Number\<close> reads from the \<open>i\<close>-th piece of a label split at
  \<^verbatim>\<open>x\<close>; \<open>None\<close> when the label is absent or has no such piece. A component is
  numeric when \<open>js_isNaN\<close> is false of it.
\<close>

definition component :: "string option \<Rightarrow> nat \<Rightarrow> jsnum option" where
  "component label i =
     (case label of
        None \<Rightarrow> None
      | Some s \<Rightarrow> js_index (map js_Number (js_split (CHR ''x'') s)) i)"

text \<open>The labels that both functions answer before they split anything.\<close>

definition sentinel :: "string \<Rightarrow> bool" where
  "sentinel s = (s = [] \<or> s = ''unknown'' \<or> s = ''undefinedxundefined'')"

text \<open>
  The policy of section 4.2 of the specification, in its words: the seven canonical
  resolutions have fixed tiers; otherwise the first threshold that the width or the
  height reaches decides; otherwise the tier is unknown.
\<close>

definition classifier_spec :: "jsnum \<Rightarrow> jsnum \<Rightarrow> string" where
  "classifier_spec w h =
     (if (w, h) = (Fin 480, Fin 270) then ''480p''
      else if (w, h) = (Fin 640, Fin 360) then ''360p''
      else if (w, h) = (Fin 854, Fin 480) then ''480p''
      else if (w, h) = (Fin 1280, Fin 720) then ''720p''
      else if (w, h) = (Fin 1920, Fin 1080) then ''1080p''
      else if (w, h) = (Fin 2560, Fin 1440) then ''1440p''
      else if (w, h) = (Fin 3840, Fin 2160) then ''4K''
      else if js_ge w (Fin 3840) \<or> js_ge h (Fin 2160) then ''4K''
      else if js_ge w (Fin 2560) \<or> js_ge h (Fin 1440) then ''1440p''
      else if js_ge w (Fin 1920) \<or> js_ge h (Fin 1080) then ''1080p''
      else if js_ge w (Fin 1280) \<or> js_ge h (Fin 720) then ''720p''
      else if js_ge w (Fin 854) \<or> js_ge h (Fin 480) then ''480p''
      else if js_ge w (Fin 640) \<or> js_ge h (Fin 360) then ''360p''
      else ''unknown'')"

text \<open>The primary locator of an item is the locator of its first variant.\<close>

definition primary_is_first_variant :: "media_item \<Rightarrow> bool" where
  "primary_is_first_variant item =
     (case media_item.variants item of
        [] \<Rightarrow> False
      | v0 # vs \<Rightarrow> media_item.url item = variant.url v0)"

section \<open>Worked requests\<close>

text \<open>A variant that carries only a resolution label, and a video item made of such variants.\<close>

definition labelled :: "string \<Rightarrow> variant" where
  "labelled r =
     \<lparr>variant.url = Some (''https://video.twimg.com/ext_tw_video/1/pu/vid/'' @ r @ ''/a.mp4''),
      quality = getQualityFromResolution (Some r),
      bitrate = None,
      content_type = Some ''video/mp4'',
      resolution = r\<rparr>"

definition video_of :: "variant list \<Rightarrow> media_item" where
  "video_of vs =
     \<lparr>media_item.type = Video,
      url = None,
      download_url = None,
      thumbnail_url = None,
      duration = None,
      width = None,
      height = None,
      size_str = None,
      variants = vs,
      best_quality = None,
      available_qualities = None,
      available_resolutions = None\<rparr>"

text \<open>Payloads of the two JSON services, and runtimes that answer every address with them.\<close>

definition no_syndication_data :: syndication_data where
  "no_syndication_data =
     \<lparr>syndication_data.user = None, text = None, created_at = None,
      photos = None, video = None, animated_gif = None\<rparr>"

definition one_photo_data :: syndication_data where
  "one_photo_data =
     no_syndication_data
       \<lparr>photos := Some [\<lparr>syndication_photo.url = ''https://pbs.twimg.com/media/a.jpg'',
                          width = Some 1200, height = Some 800\<rparr>]\<rparr>"

definition two_variant_video :: syndication_video where
  "two_variant_video =
     \<lparr>syndication_video.thumbnail_url = None,
      duration = None,
      width = Some 1920,
      height = Some 1080,
      variants =
        Some [\<lparr>syndication_variant.type = Some ''video/mp4'',
                src = Some ''https://video.twimg.com/ext_tw_video/1/pu/vid/640x360/a.mp4'',
                bitrate = Some 832000,
                content_type = None\<rparr>,
              \<lparr>syndication_variant.type = Some ''video/mp4'',
                src = Some ''https://video.twimg.com/ext_tw_video/1/pu/vid/1920x1080/b.mp4'',
                bitrate = Some 2176000,
                content_type = None\<rparr>]\<rparr>"

definition one_video_data :: syndication_data where
  "one_video_data = no_syndication_data\<lparr>video := Some two_variant_video\<rparr>"

definition empty_photos_data :: syndication_data where
  "empty_photos_data = no_syndication_data\<lparr>photos := Some []\<rparr>"

definition fx_photo_data :: fx_data where
  "fx_photo_data =
     \<lparr>tweet =
        Some \<lparr>author = None, text = Some ''hello'', created_timestamp = None,
              media =
                Some \<lparr>all_media =
                        Some [\<lparr>fx_media.type = ''photo'',
                                url = Some ''https://pbs.twimg.com/media/b.jpg'',
                                thumbnail_url = None, duration = None,
                                width = Some 640, height = Some 480\<rparr>]\<rparr>\<rparr>\<rparr>"

definition runtime_of ::
    "syndication_data fetched \<Rightarrow> fx_data fetched \<Rightarrow> candidate option \<Rightarrow> runtime" where
  "runtime_of a b c =
     \<lparr>fetch_syndication = (\<lambda>address. a),
      fetch_fxtwitter = (\<lambda>address. b),
      fetchViaHTMLScraping = (\<lambda>tweetId. c),
      now = ''2025-01-01T00:00:00.000Z'',
      toISOString = (\<lambda>d. Some ''2025-01-01T00:00:00.000Z'')\<rparr>"

definition status_url :: string where
  "status_url = ''https://x.com/user/status/1234567890123''"

section \<open>Properties of the number operations and of the sort\<close>

lemma js_finite_zero: "js_finite 0 = Fin 0"
  by (simp add: js_finite_def)

lemma js_finite_plain:
  assumes "1 \<le> q" "q \<le> 2 ^ 64"
  shows "js_finite q = Fin q"
proof -
  have b: "(2::rat) ^ 64 < 2 ^ 1024 - 2 ^ 970" by simp
  have c: "(1::rat) / 2 ^ 1075 < 1" by simp
  from assms b c show ?thesis by (simp add: js_finite_def)
qed

lemma js_finite_not_NaN: "js_finite q \<noteq> NaN"
  by (simp add: js_finite_def)


lemma js_ge_not_positive: "js_ge a b \<Longrightarrow> \<not> js_positive (js_sub b a)"
  by (cases a; cases b) auto

lemma js_positive_sub: "a \<noteq> NaN \<Longrightarrow> b \<noteq> NaN \<Longrightarrow> js_positive (js_sub b a) = (\<not> js_ge a b)"
  by (cases a; cases b) auto

lemma js_positive_antisym: "js_positive (js_sub b a) \<Longrightarrow> \<not> js_positive (js_sub a b)"
  by (cases a; cases b) auto

lemma js_ge_trans: "js_ge a b \<Longrightarrow> js_ge b c \<Longrightarrow> js_ge a c"
  by (cases a; cases b; cases c) auto

lemma js_ge_total: "a \<noteq> NaN \<Longrightarrow> b \<noteq> NaN \<Longrightarrow> js_ge a b \<or> js_ge b a"
  by (cases a; cases b) auto

lemma js_ge_antisym: "js_ge a b \<Longrightarrow> js_ge b a \<Longrightarrow> a = b"
  by (cases a; cases b) auto

lemma mset_js_insert: "mset (js_insert cmp x xs) = add_mset x (mset xs)"
  by (induction xs) auto

lemma mset_js_sort: "mset (js_sort cmp xs) = mset xs"
  by (induction xs) (auto simp: js_sort_def mset_js_insert)

lemma set_js_sort: "set (js_sort cmp xs) = set xs"
  using mset_js_sort[of cmp xs] by (metis set_mset_mset)

lemma length_js_sort: "length (js_sort cmp xs) = length xs"
  using mset_js_sort[of cmp xs] by (metis size_mset)

lemma js_sort_Cons: "js_sort cmp (x # xs) = js_insert cmp x (js_sort cmp xs)"
  by (simp add: js_sort_def)

lemma js_sort_Nil: "js_sort cmp [] = []"
  by (simp add: js_sort_def)

text \<open>
  A list in which no element is followed directly by one the comparator puts before it
  is what the sort returns, and is left as it is by the sort.
\<close>

lemma adjacent_js_insert:
  assumes "\<And>a b. js_positive (cmp a b) \<Longrightarrow> \<not> js_positive (cmp b a)"
      and "successively (\<lambda>a b. \<not> js_positive (cmp a b)) xs"
    shows "successively (\<lambda>a b. \<not> js_positive (cmp a b)) (js_insert cmp x xs)"
  using assms(2)
proof (induction xs)
  case Nil
  then show ?case by simp
next
  case (Cons y ys)
  show ?case
  proof (cases "js_positive (cmp x y)")
    case False
    with Cons.prems show ?thesis by simp
  next
    case True
    have s: "successively (\<lambda>a b. \<not> js_positive (cmp a b)) ys"
      using Cons.prems by (cases ys) auto
    have ih: "successively (\<lambda>a b. \<not> js_positive (cmp a b)) (js_insert cmp x ys)"
      using Cons.IH s by simp
    show ?thesis
    proof (cases ys)
      case Nil
      with True assms(1) show ?thesis by simp
    next
      case (Cons z zs)
      with True assms(1) ih Cons.prems show ?thesis by (auto)
    qed
  qed
qed

lemma adjacent_js_sort:
  assumes "\<And>a b. js_positive (cmp a b) \<Longrightarrow> \<not> js_positive (cmp b a)"
  shows "successively (\<lambda>a b. \<not> js_positive (cmp a b)) (js_sort cmp xs)"
proof (induction xs)
  case Nil
  show ?case by (simp add: js_sort_Nil)
next
  case (Cons x xs)
  show ?case
    unfolding js_sort_Cons by (rule adjacent_js_insert[OF assms Cons.IH])
qed

lemma js_sort_fixed:
  "successively (\<lambda>a b. \<not> js_positive (cmp a b)) xs \<Longrightarrow> js_sort cmp xs = xs"
proof (induction xs)
  case Nil
  then show ?case by (simp add: js_sort_Nil)
next
  case (Cons y ys)
  then have "js_sort cmp ys = ys" by (cases ys) auto
  with Cons.prems show ?case by (cases ys) (auto simp: js_sort_Cons)
qed

lemma js_sort_idem:
  assumes "\<And>a b. js_positive (cmp a b) \<Longrightarrow> \<not> js_positive (cmp b a)"
  shows "js_sort cmp (js_sort cmp xs) = js_sort cmp xs"
  by (rule js_sort_fixed) (rule adjacent_js_sort[OF assms])

lemma by_pixels_antisym: "js_positive (by_pixels a b) \<Longrightarrow> \<not> js_positive (by_pixels b a)"
  unfolding by_pixels_def by (rule js_positive_antisym)

lemma js_sort_by_pixels_idem: "js_sort by_pixels (js_sort by_pixels vs) = js_sort by_pixels vs"
  by (rule js_sort_idem) (rule by_pixels_antisym)

lemma sorted_js_insert:
  assumes "k x \<noteq> NaN" "\<forall>y\<in>set xs. k y \<noteq> NaN"
      and "sorted_wrt (\<lambda>a b. js_ge (k a) (k b)) xs"
    shows "sorted_wrt (\<lambda>a b. js_ge (k a) (k b)) (js_insert (\<lambda>a b. js_sub (k b) (k a)) x xs)"
  using assms(2,3)
proof (induction xs)
  case Nil
  then show ?case by simp
next
  case (Cons y ys)
  have ny: "k y \<noteq> NaN" using Cons.prems by simp
  show ?case
  proof (cases "js_positive (js_sub (k y) (k x))")
    case True
    then have yx: "js_ge (k y) (k x)"
      using js_positive_sub[OF assms(1) ny] js_ge_total[OF assms(1) ny] by auto
    have "set (js_insert (\<lambda>a b. js_sub (k b) (k a)) x ys) = insert x (set ys)"
      using mset_js_insert[of "\<lambda>a b. js_sub (k b) (k a)" x ys] by (metis set_mset_add_mset_insert set_mset_mset)
    with True yx Cons show ?thesis by auto
  next
    case False
    then have xy: "js_ge (k x) (k y)"
      using js_positive_sub[OF assms(1) ny] by auto
    have "\<forall>z\<in>set ys. js_ge (k x) (k z)"
      using Cons.prems xy js_ge_trans by auto
    with False xy Cons.prems show ?thesis by auto
  qed
qed

lemma sorted_js_sort:
  assumes "\<forall>y\<in>set xs. k y \<noteq> NaN"
  shows "sorted_wrt (\<lambda>a b. js_ge (k a) (k b)) (js_sort (\<lambda>a b. js_sub (k b) (k a)) xs)"
  using assms
proof (induction xs)
  case Nil
  show ?case by (simp add: js_sort_Nil)
next
  case (Cons x xs)
  have "\<forall>y\<in>set (js_sort (\<lambda>a b. js_sub (k b) (k a)) xs). k y \<noteq> NaN"
    using Cons.prems by (simp add: set_js_sort)
  with Cons show ?case
    unfolding js_sort_Cons by (intro sorted_js_insert) auto
qed

lemma filter_js_insert:
  assumes "k x \<noteq> NaN" "\<forall>y\<in>set xs. k y \<noteq> NaN"
      and "sorted_wrt (\<lambda>a b. js_ge (k a) (k b)) xs"
    shows "filter (\<lambda>v. k v = c) (js_insert (\<lambda>a b. js_sub (k b) (k a)) x xs)
           = filter (\<lambda>v. k v = c) (x # xs)"
  using assms(2,3)
proof (induction xs)
  case Nil
  then show ?case by simp
next
  case (Cons y ys)
  have ny: "k y \<noteq> NaN" using Cons.prems by simp
  show ?case
  proof (cases "js_positive (js_sub (k y) (k x))")
    case False
    then show ?thesis by simp
  next
    case True
    then have "\<not> js_ge (k x) (k y)"
      using js_positive_sub[OF assms(1) ny] by auto
    then have ne: "k x \<noteq> k y"
      using js_ge_total[OF ny ny] by auto
    have ih: "filter (\<lambda>v. k v = c) (js_insert (\<lambda>a b. js_sub (k b) (k a)) x ys)
           = filter (\<lambda>v. k v = c) (x # ys)"
      using Cons by simp
    show ?thesis using True ne ih by auto
  qed
qed

lemma stable_js_sort:
  assumes "\<forall>y\<in>set xs. k y \<noteq> NaN"
  shows "filter (\<lambda>v. k v = c) (js_sort (\<lambda>a b. js_sub (k b) (k a)) xs) = filter (\<lambda>v. k v = c) xs"
  using assms
proof (induction xs)
  case Nil
  show ?case by (simp add: js_sort_Nil)
next
  case (Cons x xs)
  have n: "\<forall>y\<in>set (js_sort (\<lambda>a b. js_sub (k b) (k a)) xs). k y \<noteq> NaN"
    using Cons.prems by (simp add: set_js_sort)
  have s: "sorted_wrt (\<lambda>a b. js_ge (k a) (k b)) (js_sort (\<lambda>a b. js_sub (k b) (k a)) xs)"
    using Cons.prems by (intro sorted_js_sort) simp
  have "filter (\<lambda>v. k v = c) (js_sort (\<lambda>a b. js_sub (k b) (k a)) (x # xs))
        = filter (\<lambda>v. k v = c) (x # js_sort (\<lambda>a b. js_sub (k b) (k a)) xs)"
    unfolding js_sort_Cons using Cons.prems n s by (intro filter_js_insert) auto
  with Cons show ?case by simp
qed

lemma by_pixels_eq: "by_pixels = (\<lambda>a b. js_sub (pixels b) (pixels a))"
  by (simp add: by_pixels_def fun_eq_iff)


section \<open>Properties of the Ranker\<close>

lemma js_sort_eq_Nil: "(js_sort cmp xs = []) = (xs = [])"
  using length_js_sort[of cmp xs] by (metis length_0_conv)

lemma remdups_snoc: "remdups (ys @ [x]) = remdups (filter (\<lambda>y. y \<noteq> x) ys) @ [x]"
  by (induction ys) auto

lemma foldl_js_set_add:
  "foldl js_set_add acc xs = acc @ rev (remdups (rev (filter (\<lambda>x. x \<notin> set acc) xs)))"
proof (induction xs arbitrary: acc)
  case Nil
  show ?case by simp
next
  case (Cons x xs)
  show ?case
  proof (cases "x \<in> set acc")
    case True
    then show ?thesis using Cons[of acc] by (simp add: js_set_add_def)
  next
    case False
    have "filter (\<lambda>y. y \<notin> set (acc @ [x])) xs = filter (\<lambda>y. y \<noteq> x) (filter (\<lambda>y. y \<notin> set acc) xs)"
      by (induction xs) auto
    then show ?thesis using False Cons[of "acc @ [x]"]
      by (simp add: js_set_add_def remdups_snoc rev_filter)
  qed
qed

lemma js_unique_remdups: "js_unique xs = rev (remdups (rev xs))"
  by (simp add: js_unique_def foldl_js_set_add)

lemma distinct_js_unique: "distinct (js_unique xs)"
  by (simp add: js_unique_remdups)

lemma set_js_unique: "set (js_unique xs) = set xs"
  by (simp add: js_unique_remdups)

lemma enhance_item_photo: "media_item.type item = Photo \<Longrightarrow> enhance_item item = item"
  by (simp add: enhance_item_def)

lemma enhance_item_idem: "enhance_item (enhance_item item) = enhance_item item"
proof (cases "media_item.type item = Photo")
  case True
  then show ?thesis by (simp add: enhance_item_photo)
next
  case False
  then have t: "media_item.type item = Video \<or> media_item.type item = Gif"
    by (cases "media_item.type item") auto
  show ?thesis
  proof (cases "media_item.variants item = []")
    case True
    with t show ?thesis
      by (auto simp: enhance_item_def Let_def js_sort_Cons js_sort_Nil)
  next
    case False
    then obtain v0 vs where s: "js_sort by_pixels (media_item.variants item) = v0 # vs"
      by (cases "js_sort by_pixels (media_item.variants item)") (auto simp: js_sort_eq_Nil)
    have i: "js_sort by_pixels (v0 # vs) = v0 # vs"
      using js_sort_by_pixels_idem[of "media_item.variants item"] s by simp
    from t False s i show ?thesis
      by (auto simp: enhance_item_def Let_def)
  qed
qed


subsection \<open>Evaluation of concrete labels\<close>

lemmas number_simps = js_Number_def js_trim_def is_js_space_def str_signed_def str_decimal_def
  exponent_part_def is_digit_def digits_value_def digit_value_def pow10_def str_radix_def
  js_finite_zero js_finite_plain

lemmas resolution_simps = parseResolution_def getQualityFromResolution_def js_index_def
  pixels_def by_pixels_def

lemma pixels_labelled_360: "pixels (labelled ''640x360'') = Fin 230400"
  by (simp add: labelled_def resolution_simps number_simps)

lemma pixels_labelled_1080: "pixels (labelled ''1920x1080'') = Fin 2073600"
  by (simp add: labelled_def resolution_simps number_simps)

lemma pixels_labelled_480: "pixels (labelled ''854x480'') = Fin 409920"
  by (simp add: labelled_def resolution_simps number_simps)

lemma resolution_labelled: "resolution (labelled r) = r"
  by (simp add: labelled_def)

lemma sort_three_labels:
  "js_sort by_pixels (map labelled [''640x360'', ''1920x1080'', ''854x480''])
   = map labelled [''1920x1080'', ''854x480'', ''640x360'']"
  by (simp add: js_sort_def by_pixels_def pixels_labelled_360 pixels_labelled_1080
      pixels_labelled_480)

lemma enhance_item_variants:
  assumes "media_item.type item \<noteq> Photo" "media_item.variants item \<noteq> []"
  shows "media_item.variants (enhance_item item) = js_sort by_pixels (media_item.variants item)"
proof -
  from assms(1) have t: "media_item.type item = Video \<or> media_item.type item = Gif"
    by (cases "media_item.type item") auto
  obtain v0 vs where s: "js_sort by_pixels (media_item.variants item) = v0 # vs"
    using assms(2) by (cases "js_sort by_pixels (media_item.variants item)") (auto simp: js_sort_eq_Nil)
  from t assms(2) s show ?thesis by (auto simp: enhance_item_def Let_def)
qed

subsection \<open>When a pixel area is no number\<close>

text \<open>
  The parser never returns NaN, so the area of a variant is NaN exactly when one of its
  dimensions reads as infinite and the other as 0.
\<close>

lemma js_or_zero_not_NaN: "js_or_zero c \<noteq> NaN"
  by (cases c rule: js_or_zero.cases) auto

lemma js_mul_NaN_iff:
  "(js_mul a b = NaN)
   = (a = NaN \<or> b = NaN
      \<or> ((a = PInf \<or> a = NInf) \<and> b = Fin 0) \<or> (a = Fin 0 \<and> (b = PInf \<or> b = NInf)))"
  by (cases a; cases b) (auto simp: js_finite_not_NaN)

lemma parseResolution_not_NaN:
  "dims.width (parseResolution label) \<noteq> NaN \<and> dims.height (parseResolution label) \<noteq> NaN"
  by (cases label) (auto simp: parseResolution_def Let_def js_or_zero_not_NaN)

lemma pixels_NaN_iff:
  "(pixels v = NaN)
   = (let res = parseResolution (Some (resolution v))
      in ((dims.width res = PInf \<or> dims.width res = NInf) \<and> dims.height res = Fin 0)
         \<or> (dims.width res = Fin 0 \<and> (dims.height res = PInf \<or> dims.height res = NInf)))"
  using parseResolution_not_NaN[of "Some (resolution v)"]
  by (simp add: pixels_def Let_def js_mul_NaN_iff)

text \<open>
  A dimension reads as infinite for the word \<^verbatim>\<open>Infinity\<close> and for a literal beyond the
  range of the doubles, so an area that is NaN can come from a label as plain as
  \<^verbatim>\<open>1e309x0\<close>.
\<close>

lemma js_Number_Infinity: "js_Number ''Infinity'' = PInf"
  by (simp add: js_Number_def js_trim_def is_js_space_def str_signed_def)

lemma js_Number_overflow: "js_Number ''1e309'' = PInf"
  by (simp add: js_Number_def js_trim_def is_js_space_def str_signed_def str_decimal_def
      exponent_part_def is_digit_def digits_value_def digit_value_def pow10_def js_finite_def)

lemma js_Number_zero: "js_Number ''0'' = Fin 0"
  by (simp add: number_simps)

lemma pixels_Infinity_zero: "pixels (labelled ''Infinityx0'') = NaN"
  by (simp add: labelled_def pixels_def parseResolution_def js_index_def js_Number_Infinity
      js_Number_zero)

lemma pixels_overflow_zero: "pixels (labelled ''1e309x0'') = NaN"
  by (simp add: labelled_def pixels_def parseResolution_def js_index_def js_Number_overflow
      js_Number_zero)

section \<open>Claims about the Ranker\<close>

text \<open>
  Claim C2. The Ranker is idempotent: running it on an item it has already ranked gives
  the same item again, with the same order of variants, the same primary and download
  locator, the same best-quality tier and the same lists of available qualities and
  resolutions; so running it twice over a media list is the same as running it once.
\<close>

theorem ranker_idempotent:
  "enhance_item (enhance_item item) = enhance_item item
   \<and> enhanceMediaWithResolutions (enhanceMediaWithResolutions mediaItems tweetId) tweetId
       = enhanceMediaWithResolutions mediaItems tweetId"
  by (simp add: enhanceMediaWithResolutions_def enhance_item_idem)

lemma pixels_labelled_1x1: "pixels (labelled ''1x1'') = Fin 1"
  by (simp add: labelled_def resolution_simps number_simps)

lemma pixels_labelled_2x2: "pixels (labelled ''2x2'') = Fin 4"
  by (simp add: labelled_def resolution_simps number_simps)

text \<open>
  Claim C3, as stated: for every variant list the ranked list is ordered by
  non-increasing pixel area. It fails at the labels 1x1, Infinityx0, 2x2: the area of
  the second is infinity times 0, which is NaN, the comparator returns NaN for each pair
  of neighbours, so no element moves (every neighbour comparison counts as 0, and a
  merge sort takes the whole list for one run), and the list stays as it was with the
  area 1 before the area 4.
\<close>

theorem ranking_unsorted_counterexample:
  "map pixels (map labelled [''1x1'', ''Infinityx0'', ''2x2'']) = [Fin 1, NaN, Fin 4]
   \<and> js_sort by_pixels (map labelled [''1x1'', ''Infinityx0'', ''2x2''])
       = map labelled [''1x1'', ''Infinityx0'', ''2x2'']
   \<and> media_item.variants
         (enhance_item (video_of (map labelled [''1x1'', ''Infinityx0'', ''2x2''])))
       = map labelled [''1x1'', ''Infinityx0'', ''2x2'']
   \<and> \<not> js_ge (pixels (labelled ''1x1'')) (pixels (labelled ''2x2''))
   \<and> \<not> sorted_wrt (\<lambda>a b. js_ge (pixels a) (pixels b))
             (js_sort by_pixels (map labelled [''1x1'', ''Infinityx0'', ''2x2'']))"
proof -
  have p: "map pixels (map labelled [''1x1'', ''Infinityx0'', ''2x2'']) = [Fin 1, NaN, Fin 4]"
    by (simp add: pixels_labelled_1x1 pixels_Infinity_zero pixels_labelled_2x2)
  have s: "js_sort by_pixels (map labelled [''1x1'', ''Infinityx0'', ''2x2''])
       = map labelled [''1x1'', ''Infinityx0'', ''2x2'']"
    by (simp add: js_sort_def by_pixels_def pixels_labelled_1x1 pixels_Infinity_zero
        pixels_labelled_2x2)
  have e: "media_item.variants
         (enhance_item (video_of (map labelled [''1x1'', ''Infinityx0'', ''2x2''])))
       = map labelled [''1x1'', ''Infinityx0'', ''2x2'']"
    using enhance_item_variants[of "video_of (map labelled [''1x1'', ''Infinityx0'', ''2x2''])"] s
    by (simp add: video_of_def)
  have g: "\<not> js_ge (pixels (labelled ''1x1'')) (pixels (labelled ''2x2''))"
    by (simp add: pixels_labelled_1x1 pixels_labelled_2x2)
  have u: "\<not> sorted_wrt (\<lambda>a b. js_ge (pixels a) (pixels b))
             (js_sort by_pixels (map labelled [''1x1'', ''Infinityx0'', ''2x2'']))"
    unfolding s by (simp add: pixels_labelled_1x1 pixels_Infinity_zero pixels_labelled_2x2)
  from p s e g u show ?thesis by (intro conjI)
qed

text \<open>
  Claim C3, amended. For every variant list in which every pixel area is a number (none
  is NaN, which an area is exactly when one dimension reads as infinite and the other as
  0), the ranked list is ordered by non-increasing pixel area, is a rearrangement of the
  input, and keeps variants of equal area in their original relative order; it is the
  variant list of the ranked item (for a video or gif that has variants); and the labels
  640x360, 1920x1080, 854x480 rank to 1920x1080, 854x480, 640x360.
\<close>

theorem ranking_sorted_stable:
  assumes "\<forall>v\<in>set vs. pixels v \<noteq> NaN"
  shows "sorted_wrt (\<lambda>a b. js_ge (pixels a) (pixels b)) (js_sort by_pixels vs)
         \<and> mset (js_sort by_pixels vs) = mset vs
         \<and> (\<forall>area. filter (\<lambda>v. pixels v = area) (js_sort by_pixels vs)
                     = filter (\<lambda>v. pixels v = area) vs)
         \<and> (media_item.type item \<noteq> Photo \<and> media_item.variants item = vs \<and> vs \<noteq> []
              \<longrightarrow> media_item.variants (enhance_item item) = js_sort by_pixels vs)
         \<and> map resolution (js_sort by_pixels (map labelled [''640x360'', ''1920x1080'', ''854x480'']))
             = [''1920x1080'', ''854x480'', ''640x360'']"
proof -
  have a: "sorted_wrt (\<lambda>a b. js_ge (pixels a) (pixels b)) (js_sort by_pixels vs)"
    unfolding by_pixels_eq using assms by (rule sorted_js_sort)
  have b: "mset (js_sort by_pixels vs) = mset vs"
    by (rule mset_js_sort)
  have c: "filter (\<lambda>v. pixels v = area) (js_sort by_pixels vs) = filter (\<lambda>v. pixels v = area) vs"
    for area unfolding by_pixels_eq using assms by (rule stable_js_sort)
  have d: "media_item.type item \<noteq> Photo \<and> media_item.variants item = vs \<and> vs \<noteq> []
              \<longrightarrow> media_item.variants (enhance_item item) = js_sort by_pixels vs"
    using enhance_item_variants[of item] by auto
  have e: "map resolution (js_sort by_pixels (map labelled [''640x360'', ''1920x1080'', ''854x480'']))
             = [''1920x1080'', ''854x480'', ''640x360'']"
    unfolding sort_three_labels by (simp add: resolution_labelled)
  from a b c d e show ?thesis by blast
qed

theorem ranking_sorted_stable_witness:
  "pixels (labelled ''640x360'') \<noteq> NaN
   \<and> pixels (labelled ''1920x1080'') \<noteq> NaN
   \<and> pixels (labelled ''854x480'') \<noteq> NaN
   \<and> sorted_wrt (\<lambda>a b. js_ge (pixels a) (pixels b))
        (js_sort by_pixels (map labelled [''640x360'', ''1920x1080'', ''854x480'']))
   \<and> media_item.variants
        (enhance_item (video_of (map labelled [''640x360'', ''1920x1080'', ''854x480''])))
      = map labelled [''1920x1080'', ''854x480'', ''640x360'']"
proof -
  have h: "\<forall>v\<in>set (map labelled [''640x360'', ''1920x1080'', ''854x480'']). pixels v \<noteq> NaN"
    by (simp add: pixels_labelled_360 pixels_labelled_1080 pixels_labelled_480)
  have t: "media_item.type (video_of (map labelled [''640x360'', ''1920x1080'', ''854x480''])) \<noteq> Photo
           \<and> media_item.variants (video_of (map labelled [''640x360'', ''1920x1080'', ''854x480'']))
               = map labelled [''640x360'', ''1920x1080'', ''854x480'']
           \<and> map labelled [''640x360'', ''1920x1080'', ''854x480''] \<noteq> []"
    by (simp add: video_of_def)
  from ranking_sorted_stable[OF h, of "video_of (map labelled [''640x360'', ''1920x1080'', ''854x480''])"] h t
  show ?thesis by (simp only: sort_three_labels) simp
qed

section \<open>Claims about the parser and the classifier\<close>


lemma js_or_zero_numeric: "\<not> js_isNaN (Some v) \<Longrightarrow> js_or_zero (Some v) = v"
  by (cases v) auto

lemma js_or_zero_NaN: "js_isNaN c \<Longrightarrow> js_or_zero c = Fin 0"
  by (cases c rule: js_isNaN.cases) auto

lemma component_empty: "component (Some []) (Suc 0) = None"
  by (simp add: component_def js_index_def)

lemma component_unknown: "component (Some ''unknown'') (Suc 0) = None"
  by (simp add: component_def js_index_def)

lemma component_undefined: "component (Some ''undefinedxundefined'') 0 = Some NaN"
  by (simp add: component_def js_index_def number_simps)

lemma component_undefined1: "component (Some ''undefinedxundefined'') (Suc 0) = Some NaN"
  by (simp add: component_def js_index_def number_simps)

lemma component_empty0: "component (Some []) 0 = Some (Fin 0)"
  by (simp add: component_def js_index_def number_simps)

lemma component_unknown0: "component (Some ''unknown'') 0 = Some NaN"
  by (simp add: component_def js_index_def number_simps)


lemma parseResolution_sentinel:
  "sentinel s \<Longrightarrow> parseResolution (Some s) = \<lparr>dims.width = Fin 0, height = Fin 0\<rparr>"
  by (simp add: parseResolution_def sentinel_def)

lemma parseResolution_components:
  "\<not> sentinel s \<Longrightarrow> parseResolution (Some s)
     = \<lparr>dims.width = js_or_zero (component (Some s) 0), height = js_or_zero (component (Some s) 1)\<rparr>"
  by (simp add: parseResolution_def sentinel_def component_def Let_def)

lemma parseResolution_any:
  "parseResolution (Some s)
     = \<lparr>dims.width = js_or_zero (component (Some s) 0), height = js_or_zero (component (Some s) 1)\<rparr>"
proof (cases "sentinel s")
  case False
  then show ?thesis by (rule parseResolution_components)
next
  case True
  then show ?thesis
    unfolding sentinel_def
    by (auto simp: parseResolution_def component_empty component_unknown component_undefined
        component_undefined1 component_empty0 component_unknown0)
qed

lemma quality_sentinel: "sentinel s \<Longrightarrow> getQualityFromResolution (Some s) = ''unknown''"
  by (simp add: getQualityFromResolution_def sentinel_def)

lemma sentinel_not_numeric:
  "sentinel s \<Longrightarrow> js_isNaN (component (Some s) 0) \<or> js_isNaN (component (Some s) 1)"
  unfolding sentinel_def
  by (auto simp: component_empty component_unknown component_undefined)

lemma quality_not_numeric:
  "js_isNaN (component (Some s) 0) \<or> js_isNaN (component (Some s) 1)
   \<Longrightarrow> getQualityFromResolution (Some s) = ''unknown''"
  by (simp add: getQualityFromResolution_def component_def Let_def)

lemma quality_numeric:
  assumes "\<not> js_isNaN (component (Some s) 0)" "\<not> js_isNaN (component (Some s) 1)"
  shows "getQualityFromResolution (Some s)
         = classifier_spec (dims.width (parseResolution (Some s))) (dims.height (parseResolution (Some s)))"
proof -
  from assms obtain a b where a: "component (Some s) 0 = Some a" and b: "component (Some s) 1 = Some b"
    by (cases "component (Some s) 0"; cases "component (Some s) 1") auto
  have ns: "\<not> sentinel s" using sentinel_not_numeric[of s] assms by auto
  have wa: "js_or_zero (Some a) = a" using assms(1) a by (simp add: js_or_zero_numeric)
  have hb: "js_or_zero (Some b) = b" using assms(2) b by (simp add: js_or_zero_numeric)
  have b': "component (Some s) (Suc 0) = Some b" using b by simp
  have p: "parseResolution (Some s) = \<lparr>dims.width = a, height = b\<rparr>"
    by (simp add: parseResolution_any a b' wa hb)
  have q: "getQualityFromResolution (Some s) = classifier_spec a b"
    using ns assms a b'
    by (simp add: getQualityFromResolution_def sentinel_def component_def Let_def classifier_spec_def)
  show ?thesis by (simp add: p q)
qed

text \<open>
  Claim C4, as stated: the classifier is the policy of section 4.2 applied to the parsed
  width and height. It fails at the label 1920: the parsed width is 1920, which reaches
  the threshold of 1080p, but the classifier first tests that both components are
  numbers (line 563) and answers unknown because there is no second component.
\<close>

theorem classifier_not_parser_counterexample:
  "getQualityFromResolution (Some ''1920'')
   \<noteq> classifier_spec (dims.width (parseResolution (Some ''1920'')))
                       (dims.height (parseResolution (Some ''1920'')))"
  by (simp add: resolution_simps number_simps classifier_spec_def)

text \<open>
  Claim C4, amended. The classifier is a total function of the two numbers it reads from
  the label: it answers unknown when either of the first two components is missing or
  not a number (which covers the absent label, the empty label and the sentinels), and
  otherwise applies the policy of section 4.2 to the parsed width and height: the seven
  canonical resolutions have their fixed tiers, then the descending thresholds decide,
  then the tier is unknown. The examples of the claim hold.
\<close>

theorem classifier_policy:
  "getQualityFromResolution label
     = (if js_isNaN (component label 0) \<or> js_isNaN (component label 1) then ''unknown''
        else classifier_spec (dims.width (parseResolution label)) (dims.height (parseResolution label)))
   \<and> getQualityFromResolution (Some ''480x270'') = ''480p''
   \<and> getQualityFromResolution (Some ''640x360'') = ''360p''
   \<and> getQualityFromResolution (Some ''854x480'') = ''480p''
   \<and> getQualityFromResolution (Some ''1280x720'') = ''720p''
   \<and> getQualityFromResolution (Some ''1920x1080'') = ''1080p''
   \<and> getQualityFromResolution (Some ''2560x1440'') = ''1440p''
   \<and> getQualityFromResolution (Some ''3840x2160'') = ''4K''
   \<and> getQualityFromResolution (Some ''9999x9999'') = ''4K''
   \<and> getQualityFromResolution (Some ''unknown'') = ''unknown''
   \<and> getQualityFromResolution (Some []) = ''unknown''"
proof -
  have g: "getQualityFromResolution label
     = (if js_isNaN (component label 0) \<or> js_isNaN (component label 1) then ''unknown''
        else classifier_spec (dims.width (parseResolution label)) (dims.height (parseResolution label)))"
  proof (cases label)
    case None
    then show ?thesis by (simp add: getQualityFromResolution_def component_def)
  next
    case (Some s)
    show ?thesis
      unfolding Some using quality_not_numeric[of s] quality_numeric[of s] by auto
  qed
  have e1: "getQualityFromResolution (Some ''480x270'') = ''480p''"
    by (simp add: resolution_simps number_simps)
  have e2: "getQualityFromResolution (Some ''640x360'') = ''360p''"
    by (simp add: resolution_simps number_simps)
  have e3: "getQualityFromResolution (Some ''854x480'') = ''480p''"
    by (simp add: resolution_simps number_simps)
  have e4: "getQualityFromResolution (Some ''1280x720'') = ''720p''"
    by (simp add: resolution_simps number_simps)
  have e5: "getQualityFromResolution (Some ''1920x1080'') = ''1080p''"
    by (simp add: resolution_simps number_simps)
  have e6: "getQualityFromResolution (Some ''2560x1440'') = ''1440p''"
    by (simp add: resolution_simps number_simps)
  have e7: "getQualityFromResolution (Some ''3840x2160'') = ''4K''"
    by (simp add: resolution_simps number_simps)
  have e8: "getQualityFromResolution (Some ''9999x9999'') = ''4K''"
    by (simp add: resolution_simps number_simps)
  have e9: "getQualityFromResolution (Some ''unknown'') = ''unknown''"
    by (simp add: getQualityFromResolution_def)
  have e10: "getQualityFromResolution (Some []) = ''unknown''"
    by (simp add: getQualityFromResolution_def)
  from g e1 e2 e3 e4 e5 e6 e7 e8 e9 e10 show ?thesis by (intro conjI)
qed

text \<open>
  Claim C6, as stated: the parser returns width 0 and height 0 whenever the string does
  not split into two numeric components. It fails at the label 1920, which has no second
  component and parses to width 1920 and height 0.
\<close>

theorem parser_not_zero_counterexample:
  "js_isNaN (component (Some ''1920'') 1)
   \<and> parseResolution (Some ''1920'') \<noteq> \<lparr>dims.width = Fin 0, height = Fin 0\<rparr>"
  by (simp add: component_def resolution_simps number_simps)

text \<open>
  Claim C6, amended. The parser is total and returns width 0 and height 0 when the
  string is absent, empty or one of the two sentinels. In general the width is the
  number read from the first component and the height the number read from the second,
  and each is 0 on its own when its component is missing or not a number; so the result
  is 0 and 0 when neither component is a number, and a label with one numeric component
  keeps it.
\<close>

theorem parser_components:
  "parseResolution None = \<lparr>dims.width = Fin 0, height = Fin 0\<rparr>
   \<and> parseResolution (Some []) = \<lparr>dims.width = Fin 0, height = Fin 0\<rparr>
   \<and> parseResolution (Some ''unknown'') = \<lparr>dims.width = Fin 0, height = Fin 0\<rparr>
   \<and> parseResolution (Some ''undefinedxundefined'') = \<lparr>dims.width = Fin 0, height = Fin 0\<rparr>
   \<and> dims.width (parseResolution label)
       = (if js_isNaN (component label 0) then Fin 0 else the (component label 0))
   \<and> dims.height (parseResolution label)
       = (if js_isNaN (component label 1) then Fin 0 else the (component label 1))
   \<and> parseResolution (Some ''1920'') = \<lparr>dims.width = Fin 1920, height = Fin 0\<rparr>
   \<and> parseResolution (Some ''1920x1080'') = \<lparr>dims.width = Fin 1920, height = Fin 1080\<rparr>"
proof -
  have w: "dims.width (parseResolution label)
       = (if js_isNaN (component label 0) then Fin 0 else the (component label 0))"
  proof (cases label)
    case None
    then show ?thesis by (simp add: parseResolution_def component_def)
  next
    case (Some s)
    show ?thesis
    proof (cases "component (Some s) 0")
      case None
      then show ?thesis unfolding Some by (simp add: parseResolution_any)
    next
      case (Some a)
      then show ?thesis unfolding \<open>label = Some s\<close>
        by (cases a) (simp_all add: parseResolution_any)
    qed
  qed
  have h: "dims.height (parseResolution label)
       = (if js_isNaN (component label 1) then Fin 0 else the (component label 1))"
  proof (cases label)
    case None
    then show ?thesis by (simp add: parseResolution_def component_def)
  next
    case (Some s)
    show ?thesis
    proof (cases "component (Some s) (Suc 0)")
      case None
      then show ?thesis unfolding Some by (simp add: parseResolution_any)
    next
      case (Some b)
      then show ?thesis unfolding \<open>label = Some s\<close>
        by (cases b) (simp_all add: parseResolution_any)
    qed
  qed
  have z: "parseResolution None = \<lparr>dims.width = Fin 0, height = Fin 0\<rparr>"
    "parseResolution (Some []) = \<lparr>dims.width = Fin 0, height = Fin 0\<rparr>"
    "parseResolution (Some ''unknown'') = \<lparr>dims.width = Fin 0, height = Fin 0\<rparr>"
    "parseResolution (Some ''undefinedxundefined'') = \<lparr>dims.width = Fin 0, height = Fin 0\<rparr>"
    by (simp_all add: parseResolution_def)
  have e: "parseResolution (Some ''1920'') = \<lparr>dims.width = Fin 1920, height = Fin 0\<rparr>"
    "parseResolution (Some ''1920x1080'') = \<lparr>dims.width = Fin 1920, height = Fin 1080\<rparr>"
    by (simp_all add: resolution_simps number_simps)
  from w h z e show ?thesis by (intro conjI)
qed

section \<open>Claims about the lists of the Ranker and about photos\<close>


lemma enhance_item_available:
  assumes "media_item.type item = Video \<or> media_item.type item = Gif"
  shows "media_item.available_qualities (enhance_item item)
           = Some (js_unique (filter known (map quality (media_item.variants (enhance_item item)))))
         \<and> media_item.available_resolutions (enhance_item item)
           = Some (js_unique (filter known (map resolution (media_item.variants (enhance_item item)))))"
proof (cases "media_item.variants item = []")
  case True
  with assms show ?thesis
    by (auto simp: enhance_item_def Let_def js_sort_Cons js_sort_Nil)
next
  case False
  then obtain v0 vs where s: "js_sort by_pixels (media_item.variants item) = v0 # vs"
    by (cases "js_sort by_pixels (media_item.variants item)") (auto simp: js_sort_eq_Nil)
  from assms False s show ?thesis
    by (auto simp: enhance_item_def Let_def)
qed

lemma unknown_not_known: "''unknown'' \<notin> set (js_unique (filter known xs))"
  by (simp add: set_js_unique known_def)

text \<open>The two lists of the download summary are the same values, sorted.\<close>

lemma summary_lists:
  assumes "generateDownloadInfo rt mediaData tweetId = Some info"
  shows "download_info.available_qualities info
           = js_sort by_quality (js_unique (filter known
               (map quality (concat (map media_item.variants (candidate.media mediaData))))))
         \<and> download_info.available_resolutions info
           = js_sort by_resolution (js_unique (filter known
               (map resolution (concat (map media_item.variants (candidate.media mediaData))))))"
  using assms
  by (auto simp: generateDownloadInfo_def Let_def split: option.splits created.splits if_splits)

lemma distinct_js_sort: "distinct (js_sort cmp xs) = distinct xs"
  using mset_js_sort[of cmp xs] by (rule mset_eq_imp_distinct_iff)

lemma summary_lists_distinct_known:
  assumes "generateDownloadInfo rt mediaData tweetId = Some info"
  shows "distinct (download_info.available_qualities info)
         \<and> distinct (download_info.available_resolutions info)
         \<and> ''unknown'' \<notin> set (download_info.available_qualities info)
         \<and> ''unknown'' \<notin> set (download_info.available_resolutions info)"
  using summary_lists[OF assms]
  by (simp add: distinct_js_sort set_js_sort distinct_js_unique unknown_not_known)

lemma size_of_1200_800: "size_of (Some 1200) (Some 800) = ''1200x800''"
  by (simp add: size_of_def show_dim_def digit_char_def)

text \<open>
  Claim C7, as stated: after ranking, the two lists of every media item are the distinct
  known qualities and resolutions of the item's variants. It fails for a photo: the
  Ranker passes photos by (line 527), so the photo of Source A leaves the pass without
  the two lists although its variant has the quality original and the resolution
  1200x800.
\<close>

theorem photo_lists_absent_counterexample:
  "media_item.available_qualities
     (enhance_item
        (syndication_photo_item
           \<lparr>syndication_photo.url = ''https://pbs.twimg.com/media/a.jpg'',
            width = Some 1200, height = Some 800\<rparr>)) = None
   \<and> media_item.available_resolutions
       (enhance_item
          (syndication_photo_item
             \<lparr>syndication_photo.url = ''https://pbs.twimg.com/media/a.jpg'',
              width = Some 1200, height = Some 800\<rparr>)) = None
   \<and> map quality
       (media_item.variants
          (enhance_item
             (syndication_photo_item
                \<lparr>syndication_photo.url = ''https://pbs.twimg.com/media/a.jpg'',
                 width = Some 1200, height = Some 800\<rparr>))) = [''original'']
   \<and> map resolution
       (media_item.variants
          (enhance_item
             (syndication_photo_item
                \<lparr>syndication_photo.url = ''https://pbs.twimg.com/media/a.jpg'',
                 width = Some 1200, height = Some 800\<rparr>))) = [''1200x800'']
   \<and> known ''original''
   \<and> known ''1200x800''"
  by (simp add: enhance_item_def syndication_photo_item_def size_of_1200_800 known_def)

text \<open>
  Claim C7, amended. For every item of kind video or gif (the items the Ranker ranks),
  after ranking both lists are present, hold no value twice and never hold the string
  unknown; they hold exactly the non-empty values other than unknown among the qualities
  and the resolutions of the item's ranked variants, in the order in which these values
  first occur in the ranked variant list. For a photo item the pass leaves both lists as
  they were, which is absent for the photos that the extractors build.
\<close>

theorem available_lists_distinct_known:
  "(media_item.type item = Video \<or> media_item.type item = Gif
      \<longrightarrow> (\<exists>qs rs.
             media_item.available_qualities (enhance_item item) = Some qs
           \<and> media_item.available_resolutions (enhance_item item) = Some rs
           \<and> distinct qs \<and> distinct rs
           \<and> ''unknown'' \<notin> set qs \<and> ''unknown'' \<notin> set rs
           \<and> set qs = {q \<in> set (map quality (media_item.variants (enhance_item item))). known q}
           \<and> set rs = {r \<in> set (map resolution (media_item.variants (enhance_item item))). known r}
           \<and> qs = rev (remdups (rev (filter known
                     (map quality (media_item.variants (enhance_item item))))))
           \<and> rs = rev (remdups (rev (filter known
                     (map resolution (media_item.variants (enhance_item item))))))))
   \<and> (media_item.type item = Photo
      \<longrightarrow> media_item.available_qualities (enhance_item item)
            = media_item.available_qualities item
          \<and> media_item.available_resolutions (enhance_item item)
            = media_item.available_resolutions item)
   \<and> media_item.available_qualities (syndication_photo_item photo) = None
   \<and> media_item.available_resolutions (syndication_photo_item photo) = None"
proof -
  let ?qs = "js_unique (filter known (map quality (media_item.variants (enhance_item item))))"
  let ?rs = "js_unique (filter known (map resolution (media_item.variants (enhance_item item))))"
  have d: "distinct ?qs" "distinct ?rs" by (rule distinct_js_unique)+
  have u: "''unknown'' \<notin> set ?qs" "''unknown'' \<notin> set ?rs" by (rule unknown_not_known)+
  have sq: "set ?qs = {q \<in> set (map quality (media_item.variants (enhance_item item))). known q}"
    by (auto simp: set_js_unique)
  have sr: "set ?rs = {r \<in> set (map resolution (media_item.variants (enhance_item item))). known r}"
    by (auto simp: set_js_unique)
  have oq: "?qs = rev (remdups (rev (filter known
                   (map quality (media_item.variants (enhance_item item))))))"
    by (rule js_unique_remdups)
  have or: "?rs = rev (remdups (rev (filter known
                   (map resolution (media_item.variants (enhance_item item))))))"
    by (rule js_unique_remdups)
  have ranked: "\<exists>qs rs.
             media_item.available_qualities (enhance_item item) = Some qs
           \<and> media_item.available_resolutions (enhance_item item) = Some rs
           \<and> distinct qs \<and> distinct rs
           \<and> ''unknown'' \<notin> set qs \<and> ''unknown'' \<notin> set rs
           \<and> set qs = {q \<in> set (map quality (media_item.variants (enhance_item item))). known q}
           \<and> set rs = {r \<in> set (map resolution (media_item.variants (enhance_item item))). known r}
           \<and> qs = rev (remdups (rev (filter known
                     (map quality (media_item.variants (enhance_item item))))))
           \<and> rs = rev (remdups (rev (filter known
                     (map resolution (media_item.variants (enhance_item item))))))"
    if t: "media_item.type item = Video \<or> media_item.type item = Gif"
  proof -
    have a: "media_item.available_qualities (enhance_item item) = Some ?qs"
      and b: "media_item.available_resolutions (enhance_item item) = Some ?rs"
      using enhance_item_available[OF t] by simp_all
    from a b d u sq sr oq or show ?thesis by blast
  qed
  have photo: "media_item.type item = Photo
      \<longrightarrow> media_item.available_qualities (enhance_item item)
            = media_item.available_qualities item
          \<and> media_item.available_resolutions (enhance_item item)
            = media_item.available_resolutions item"
    by (simp add: enhance_item_photo)
  have built: "media_item.available_qualities (syndication_photo_item photo) = None"
    "media_item.available_resolutions (syndication_photo_item photo) = None"
    by (simp_all add: syndication_photo_item_def)
  from ranked photo built show ?thesis by blast
qed

lemma labelled_quality_360: "quality (labelled ''640x360'') = ''360p''"
  by (simp add: labelled_def resolution_simps number_simps)

lemma labelled_quality_1080: "quality (labelled ''1920x1080'') = ''1080p''"
  by (simp add: labelled_def resolution_simps number_simps)

lemma enhance_two_labels:
  "media_item.variants
     (enhance_item (video_of (map labelled [''640x360'', ''1920x1080'', ''640x360''])))
   = map labelled [''1920x1080'', ''640x360'', ''640x360'']"
proof -
  have "js_sort by_pixels (map labelled [''640x360'', ''1920x1080'', ''640x360''])
        = map labelled [''1920x1080'', ''640x360'', ''640x360'']"
    by (simp add: js_sort_def by_pixels_def pixels_labelled_360 pixels_labelled_1080)
  then show ?thesis
    using enhance_item_variants[of "video_of (map labelled [''640x360'', ''1920x1080'', ''640x360''])"]
    by (simp add: video_of_def)
qed

theorem available_lists_distinct_known_witness:
  "media_item.type (video_of (map labelled [''640x360'', ''1920x1080'', ''640x360''])) = Video
   \<and> media_item.available_qualities
        (enhance_item (video_of (map labelled [''640x360'', ''1920x1080'', ''640x360''])))
      = Some [''1080p'', ''360p'']
   \<and> media_item.available_resolutions
        (enhance_item (video_of (map labelled [''640x360'', ''1920x1080'', ''640x360''])))
      = Some [''1920x1080'', ''640x360'']"
proof -
  have t: "media_item.type (video_of (map labelled [''640x360'', ''1920x1080'', ''640x360''])) = Video"
    by (simp add: video_of_def)
  then have t': "media_item.type (video_of (map labelled [''640x360'', ''1920x1080'', ''640x360''])) = Video
      \<or> media_item.type (video_of (map labelled [''640x360'', ''1920x1080'', ''640x360''])) = Gif"
    by simp
  from available_lists_distinct_known[of
      "video_of (map labelled [''640x360'', ''1920x1080'', ''640x360''])"] t t'
  show ?thesis
    unfolding enhance_two_labels
    by (auto simp: labelled_quality_360 labelled_quality_1080 resolution_labelled known_def)
qed

text \<open>
  Claim C10. The Ranker pass returns every photo item exactly as it was, so no field
  changes and none is added; an item that the pass changes is a video or a gif; the pass
  keeps the number and the positions of the items. The photo items that Source A and
  Source B build come back unchanged, without a best-quality tier and without lists of
  available qualities or resolutions.
\<close>

theorem photos_unchanged:
  "(media_item.type item = Photo \<longrightarrow> enhance_item item = item)
   \<and> (enhance_item item \<noteq> item \<longrightarrow> media_item.type item = Video \<or> media_item.type item = Gif)
   \<and> length (enhanceMediaWithResolutions mediaItems tweetId) = length mediaItems
   \<and> (\<forall>i < length mediaItems. media_item.type (mediaItems ! i) = Photo
         \<longrightarrow> enhanceMediaWithResolutions mediaItems tweetId ! i = mediaItems ! i)
   \<and> enhance_item (syndication_photo_item photo) = syndication_photo_item photo
   \<and> (fx_media.type m = ''photo'' \<and> fx_media_item m = Some item'
        \<longrightarrow> enhance_item item' = item' \<and> media_item.best_quality item' = None
            \<and> media_item.available_qualities item' = None
            \<and> media_item.available_resolutions item' = None)"
proof -
  have a: "media_item.type item = Photo \<longrightarrow> enhance_item item = item"
    by (simp add: enhance_item_photo)
  have b: "enhance_item item \<noteq> item \<longrightarrow> media_item.type item = Video \<or> media_item.type item = Gif"
    using a by (cases "media_item.type item") auto
  have c: "length (enhanceMediaWithResolutions mediaItems tweetId) = length mediaItems"
    by (simp add: enhanceMediaWithResolutions_def)
  have d: "\<forall>i < length mediaItems. media_item.type (mediaItems ! i) = Photo
         \<longrightarrow> enhanceMediaWithResolutions mediaItems tweetId ! i = mediaItems ! i"
    by (simp add: enhanceMediaWithResolutions_def enhance_item_photo)
  have e: "enhance_item (syndication_photo_item photo) = syndication_photo_item photo"
    by (rule enhance_item_photo) (simp add: syndication_photo_item_def)
  have f: "fx_media.type m = ''photo'' \<and> fx_media_item m = Some item'
        \<longrightarrow> enhance_item item' = item' \<and> media_item.best_quality item' = None
            \<and> media_item.available_qualities item' = None
            \<and> media_item.available_resolutions item' = None"
    by (auto simp: fx_media_item_def enhance_item_def split: if_splits)
  from a b c d e f show ?thesis by (intro conjI)
qed


theorem photos_unchanged_witness:
  "media_item.type
     (syndication_photo_item
        \<lparr>syndication_photo.url = ''https://pbs.twimg.com/media/a.jpg'',
         width = Some 1200, height = Some 800\<rparr>) = Photo
   \<and> enhanceMediaWithResolutions
         [syndication_photo_item
            \<lparr>syndication_photo.url = ''https://pbs.twimg.com/media/a.jpg'',
             width = Some 1200, height = Some 800\<rparr>,
          video_of (map labelled [''640x360'', ''1920x1080''])] ''1234567890123'' ! 0
       = syndication_photo_item
           \<lparr>syndication_photo.url = ''https://pbs.twimg.com/media/a.jpg'',
            width = Some 1200, height = Some 800\<rparr>
   \<and> media_item.available_qualities
         (enhance_item
            (syndication_photo_item
               \<lparr>syndication_photo.url = ''https://pbs.twimg.com/media/a.jpg'',
                width = Some 1200, height = Some 800\<rparr>)) = None"
  using photos_unchanged[of
      "syndication_photo_item
         \<lparr>syndication_photo.url = ''https://pbs.twimg.com/media/a.jpg'',
          width = Some 1200, height = Some 800\<rparr>"
      "[syndication_photo_item
          \<lparr>syndication_photo.url = ''https://pbs.twimg.com/media/a.jpg'',
           width = Some 1200, height = Some 800\<rparr>,
        video_of (map labelled [''640x360'', ''1920x1080''])]"
      "''1234567890123''"]
  by (simp add: syndication_photo_item_def)

section \<open>Claims about the handler\<close>


lemma has_digit_run_Nil: "has_digit_run n [] = (n = 0)"
  by (simp add: has_digit_run_def)

lemma has_digit_run_Cons:
  "has_digit_run n (c # cs) = (n \<le> length (takeWhile is_digit (c # cs)) \<or> has_digit_run n cs)"
  by (auto simp: has_digit_run_def)

lemma extract_None_iff: "(extractStatusIdFromUrl s = None) = (\<not> has_digit_run 10 s)"
  by (induction s) (auto simp: has_digit_run_Nil has_digit_run_Cons Let_def)

text \<open>
  The predicate means what it says: some stretch of at least \<open>n\<close> consecutive
  characters of the string consists of digits.
\<close>

lemma has_digit_run_iff:
  "has_digit_run n s = (\<exists>xs ds ys. s = xs @ ds @ ys \<and> n \<le> length ds \<and> list_all is_digit ds)"
proof
  assume "has_digit_run n s"
  then obtain t where t: "t \<in> set (suffixes s)" "n \<le> length (takeWhile is_digit t)"
    by (auto simp: has_digit_run_def list_ex_iff)
  from t(1) obtain xs where "s = xs @ t" by (auto simp: suffix_def)
  then have "s = xs @ takeWhile is_digit t @ dropWhile is_digit t" by simp
  moreover have "list_all is_digit (takeWhile is_digit t)"
    by (simp add: list_all_iff) (meson set_takeWhileD)
  ultimately show "\<exists>xs ds ys. s = xs @ ds @ ys \<and> n \<le> length ds \<and> list_all is_digit ds"
    using t(2) by blast
next
  assume "\<exists>xs ds ys. s = xs @ ds @ ys \<and> n \<le> length ds \<and> list_all is_digit ds"
  then obtain xs ds ys where s: "s = xs @ ds @ ys" "n \<le> length ds" "list_all is_digit ds"
    by blast
  have "takeWhile is_digit (ds @ ys) = ds @ takeWhile is_digit ys"
    using s(3) by (simp add: list_all_iff)
  then have "n \<le> length (takeWhile is_digit (ds @ ys))" using s(2) by simp
  moreover have "ds @ ys \<in> set (suffixes s)" by (simp add: s(1) suffix_def)
  ultimately show "has_digit_run n s" by (auto simp: has_digit_run_def list_ex_iff)
qed

text \<open>An identifier is a stretch of at least ten digits of the reference.\<close>

lemma extract_Some:
  "extractStatusIdFromUrl s = Some i
   \<Longrightarrow> 10 \<le> length i \<and> list_all is_digit i \<and> (\<exists>xs ys. s = xs @ i @ ys)"
proof (induction s)
  case Nil
  then show ?case by simp
next
  case (Cons c cs)
  show ?case
  proof (cases "10 \<le> length (takeWhile is_digit (c # cs))")
    case True
    with Cons.prems have i: "i = takeWhile is_digit (c # cs)" by (simp add: Let_def)
    have "c # cs = [] @ i @ dropWhile is_digit (c # cs)" unfolding i by simp
    moreover have "list_all is_digit i"
      unfolding i by (simp only: list_all_iff) (meson set_takeWhileD)
    ultimately show ?thesis using True i by blast
  next
    case False
    with Cons.prems have "extractStatusIdFromUrl cs = Some i" by (simp add: Let_def)
    with Cons.IH obtain xs ys where "10 \<le> length i" "list_all is_digit i" "cs = xs @ i @ ys"
      by blast
    then have "c # cs = (c # xs) @ i @ ys" by simp
    with \<open>10 \<le> length i\<close> \<open>list_all is_digit i\<close> show ?thesis by blast
  qed
qed

text \<open>
  Claim C8. For every reference string without a run of ten or more consecutive digits,
  the handler answers with status 400, \<^verbatim>\<open>success: false\<close> and the error
  \<^verbatim>\<open>Invalid URL\<close>, and has called none of the upstream sources; the POST route gives
  the same answer for such a string.
\<close>

theorem no_identifier_400:
  assumes "\<not> has_digit_run 10 tweetUrl"
  shows "handleScrapeRequestDirect rt (Some tweetUrl)
           = (\<lparr>status = 400, body = Failure ''Invalid URL'' None\<rparr>, [])
         \<and> \<not> success (fst (handleScrapeRequestDirect rt (Some tweetUrl)))
         \<and> handleScrapeRequest rt (Some (Some tweetUrl))
           = (\<lparr>status = 400, body = Failure ''Invalid URL'' None\<rparr>, [])"
proof -
  have "extractStatusIdFromUrl tweetUrl = None" using assms by (simp add: extract_None_iff)
  then show ?thesis
    by (simp add: handleScrapeRequestDirect_def handleScrapeRequest_def success_def)
qed

lemma no_run_example: "\<not> has_digit_run 10 ''status/123456789''"
  by (simp add: has_digit_run_Cons has_digit_run_Nil is_digit_def)

theorem no_identifier_400_witness:
  "\<not> has_digit_run 10 ''status/123456789''
   \<and> handleScrapeRequestDirect (runtime_of Not_ok Not_ok None) (Some ''status/123456789'')
       = (\<lparr>status = 400, body = Failure ''Invalid URL'' None\<rparr>, [])"
  using no_identifier_400[OF no_run_example, of "runtime_of Not_ok Not_ok None"] no_run_example
  by simp

text \<open>
  Claim C9. When the reference holds an identifier and none of the three extractors
  returns a media item for it (each returns no result or a result with an empty media
  list), the handler answers with status 404, \<^verbatim>\<open>success: false\<close>, the error
  \<^verbatim>\<open>Content not available\<close> and the identifier, after calling all three sources.
\<close>

theorem no_media_404:
  assumes "extractStatusIdFromUrl tweetUrl = Some statusId"
      and "no_media (fetchViaSyndicationAPI rt statusId)"
      and "no_media (fetchViaFxtwitterAPI rt statusId)"
      and "no_media (fetchViaHTMLScraping rt statusId)"
    shows "fst (handleScrapeRequestDirect rt (Some tweetUrl))
             = \<lparr>status = 404, body = Failure ''Content not available'' (Some statusId)\<rparr>
           \<and> \<not> success (fst (handleScrapeRequestDirect rt (Some tweetUrl)))
           \<and> snd (handleScrapeRequestDirect rt (Some tweetUrl))
             = [Call_syndication statusId, Call_fxtwitter statusId, Call_html statusId]"
proof -
  have f: "no_media (case fetchViaSyndicationAPI rt statusId of
                       Some r \<Rightarrow> Some r | None \<Rightarrow> fetchViaFxtwitterAPI rt statusId)"
    using assms(2,3) by (cases "fetchViaSyndicationAPI rt statusId") auto
  have r: "fst (handleScrapeRequestDirect rt (Some tweetUrl))
             = \<lparr>status = 404, body = Failure ''Content not available'' (Some statusId)\<rparr>"
    using assms(1,4) f
    by (cases "fetchViaHTMLScraping rt statusId")
       (simp_all add: handleScrapeRequestDirect_def Let_def no_media_def)
  have c: "snd (handleScrapeRequestDirect rt (Some tweetUrl))
             = [Call_syndication statusId, Call_fxtwitter statusId, Call_html statusId]"
    using assms(1,4) f
    by (cases "fetchViaHTMLScraping rt statusId")
       (simp_all add: handleScrapeRequestDirect_def Let_def no_media_def)
  from r c show ?thesis by (simp add: success_def)
qed

lemma extract_plain_id: "extractStatusIdFromUrl ''1234567890123'' = Some ''1234567890123''"
  by (simp add: is_digit_def Let_def)

lemma extract_status_url: "extractStatusIdFromUrl status_url = Some ''1234567890123''"
  by (simp add: status_url_def is_digit_def Let_def)

lemma syndication_not_ok: "fetchViaSyndicationAPI (runtime_of Not_ok b c) i = None"
  by (simp add: fetchViaSyndicationAPI_def runtime_of_def)

lemma fxtwitter_not_ok: "fetchViaFxtwitterAPI (runtime_of a Not_ok c) i = None"
  by (simp add: fetchViaFxtwitterAPI_def fxtwitter_result_def runtime_of_def)

lemma html_runtime_of: "fetchViaHTMLScraping (runtime_of a b c) i = c"
  by (simp add: runtime_of_def)

theorem no_media_404_witness:
  "extractStatusIdFromUrl ''1234567890123'' = Some ''1234567890123''
   \<and> no_media (fetchViaSyndicationAPI (runtime_of Not_ok Not_ok None) ''1234567890123'')
   \<and> no_media (fetchViaFxtwitterAPI (runtime_of Not_ok Not_ok None) ''1234567890123'')
   \<and> no_media (fetchViaHTMLScraping (runtime_of Not_ok Not_ok None) ''1234567890123'')
   \<and> fst (handleScrapeRequestDirect (runtime_of Not_ok Not_ok None) (Some ''1234567890123''))
       = \<lparr>status = 404, body = Failure ''Content not available'' (Some ''1234567890123'')\<rparr>"
proof -
  have a: "no_media (fetchViaSyndicationAPI (runtime_of Not_ok Not_ok None) ''1234567890123'')"
    by (simp add: syndication_not_ok no_media_def)
  have b: "no_media (fetchViaFxtwitterAPI (runtime_of Not_ok Not_ok None) ''1234567890123'')"
    by (simp add: fxtwitter_not_ok no_media_def)
  have c: "no_media (fetchViaHTMLScraping (runtime_of Not_ok Not_ok None) ''1234567890123'')"
    by (simp add: html_runtime_of no_media_def)
  from no_media_404[OF extract_plain_id a b c] extract_plain_id a b c show ?thesis by simp
qed



lemma enhance_item_type: "media_item.type (enhance_item item) = media_item.type item"
proof (cases "media_item.type item = Photo")
  case True
  then show ?thesis by (simp add: enhance_item_photo)
next
  case False
  then have t: "media_item.type item = Video \<or> media_item.type item = Gif"
    by (cases "media_item.type item") auto
  then show ?thesis
    by (auto simp: enhance_item_def Let_def split: list.splits)
qed

lemma enhance_item_primary:
  assumes "media_item.type item = Video \<or> media_item.type item = Gif"
  shows "primary_is_first_variant (enhance_item item)
         \<and> media_item.download_url (enhance_item item) = media_item.url (enhance_item item)"
proof (cases "media_item.variants item = []")
  case True
  with assms show ?thesis
    by (auto simp: enhance_item_def Let_def js_sort_Cons js_sort_Nil primary_is_first_variant_def)
next
  case False
  then obtain v0 vs where s: "js_sort by_pixels (media_item.variants item) = v0 # vs"
    by (cases "js_sort by_pixels (media_item.variants item)") (auto simp: js_sort_eq_Nil)
  from assms False s show ?thesis
    by (auto simp: enhance_item_def Let_def primary_is_first_variant_def)
qed

lemma generateDownloadInfo_text:
  assumes "candidate.created_at r = Created_text s" "s \<noteq> []"
      and "toISOString rt (Date_string s) = Some d"
  shows "\<exists>info. generateDownloadInfo rt r t = Some info"
  using assms by (simp add: generateDownloadInfo_def Let_def)

text \<open>
  The part of the priority rule that holds for Source A: when A returns a result with at
  least one media item (and its timestamp is a valid date), the response is built on A's
  result, reports the method of A, and its media list is A's media list after the
  Ranker, whatever Source B returned. Source C is not called.
\<close>

lemma handler_source_a:
  assumes "extractStatusIdFromUrl u = Some sid"
      and "fetchViaSyndicationAPI rt sid = Some a"
      and "candidate.media a \<noteq> []"
      and "candidate.created_at a = Created_text s"
      and "generateDownloadInfo rt
             (a\<lparr>candidate.media := enhanceMediaWithResolutions (candidate.media a) sid,
                candidate.method := ''api_a'',
                candidate.created_at := Created_text s\<rparr>) sid = Some info"
  shows "handleScrapeRequestDirect rt (Some u)
           = (\<lparr>status = 200,
               body = Success
                 \<lparr>url = u, tweet_id = sid, method = ''api_a'', user = candidate.user a,
                  text = candidate.text a, created_at = s,
                  media = enhanceMediaWithResolutions (candidate.media a) sid,
                  media_count = length (candidate.media a), download_info = info\<rparr>\<rparr>,
              [Call_syndication sid, Call_fxtwitter sid])"
  using assms
  by (simp add: handleScrapeRequestDirect_def Let_def no_media_def or_else_def
      enhanceMediaWithResolutions_def)



text \<open>The media list of every success response is the output of the Ranker pass.\<close>

lemma handler_success_media:
  assumes "fst (handleScrapeRequestDirect rt tweetUrl) = \<lparr>status = st, body = Success p\<rparr>"
  shows "\<exists>ms sid. success_body.media p = enhanceMediaWithResolutions ms sid"
proof (cases tweetUrl)
  case None
  with assms show ?thesis by (simp add: handleScrapeRequestDirect_def service_error_def)
next
  case u: (Some u)
  show ?thesis
  proof (cases "extractStatusIdFromUrl u")
    case None
    with assms u show ?thesis by (simp add: handleScrapeRequestDirect_def)
  next
    case sid: (Some sid)
    let ?a = "fetchViaSyndicationAPI rt sid"
    let ?first = "case ?a of Some r \<Rightarrow> Some r | None \<Rightarrow> fetchViaFxtwitterAPI rt sid"
    let ?result = "if no_media ?first then fetchViaHTMLScraping rt sid else ?first"
    show ?thesis
    proof (cases ?result)
      case None
      with assms u sid show ?thesis by (simp add: handleScrapeRequestDirect_def Let_def)
    next
      case r: (Some r)
      show ?thesis
      proof (cases "candidate.media r = []")
        case True
        with assms u sid r show ?thesis by (simp add: handleScrapeRequestDirect_def Let_def)
      next
        case m: False
        let ?r1 = "if \<not> no_media ?a
                   then r\<lparr>candidate.media := enhanceMediaWithResolutions (candidate.media (the ?a)) sid,
                          candidate.method := ''api_a''\<rparr>
                   else r\<lparr>candidate.media := enhanceMediaWithResolutions (candidate.media r) sid\<rparr>"
        let ?fixed = "case candidate.created_at ?r1 of
                        Created_text s \<Rightarrow> Some s
                      | Created_seconds n \<Rightarrow> toISOString rt (Date_millis (n * 1000))"
        have m1: "\<exists>ms. candidate.media ?r1 = enhanceMediaWithResolutions ms sid"
          by auto
        show ?thesis
        proof (cases ?fixed)
          case None
          with assms u sid r m show ?thesis
            by (simp add: handleScrapeRequestDirect_def Let_def service_error_def)
        next
          case c: (Some created)
          show ?thesis
          proof (cases "generateDownloadInfo rt (?r1\<lparr>candidate.created_at := Created_text created\<rparr>) sid")
            case None
            with assms u sid r m c show ?thesis
              by (simp add: handleScrapeRequestDirect_def Let_def service_error_def)
          next
            case (Some info)
            with assms u sid r m c have "success_body.media p = candidate.media ?r1"
              by (simp add: handleScrapeRequestDirect_def Let_def) (auto split: if_splits)
            with m1 show ?thesis by metis
          qed
        qed
      qed
    qed
  qed
qed


text \<open>
  Claim C5, amended. For every item of kind video or gif, after the Ranker the primary
  locator and the download locator are the locator of the first variant of the ranked
  list, and ranking again does not reorder the list. The media list of every success
  response is the output of the Ranker pass as it is, so this holds of every video and
  gif item of a response. (Photo items are returned as the extractor built them.)
\<close>

theorem ranked_items_primary_locator:
  "(media_item.type item = Video \<or> media_item.type item = Gif
      \<longrightarrow> primary_is_first_variant (enhance_item item)
          \<and> media_item.download_url (enhance_item item) = media_item.url (enhance_item item)
          \<and> media_item.variants (enhance_item (enhance_item item))
              = media_item.variants (enhance_item item))
   \<and> (fst (handleScrapeRequestDirect rt tweetUrl) = \<lparr>status = st, body = Success p\<rparr>
      \<longrightarrow> (\<exists>ms sid. success_body.media p = enhanceMediaWithResolutions ms sid)
          \<and> (\<forall>ranked\<in>set (success_body.media p).
                media_item.type ranked = Video \<or> media_item.type ranked = Gif
                \<longrightarrow> primary_is_first_variant ranked
                    \<and> media_item.download_url ranked = media_item.url ranked))"
proof -
  have a: "media_item.type item = Video \<or> media_item.type item = Gif
      \<longrightarrow> primary_is_first_variant (enhance_item item)
          \<and> media_item.download_url (enhance_item item) = media_item.url (enhance_item item)
          \<and> media_item.variants (enhance_item (enhance_item item))
              = media_item.variants (enhance_item item)"
    using enhance_item_primary[of item] by (simp add: enhance_item_idem)
  have b: "(\<exists>ms sid. success_body.media p = enhanceMediaWithResolutions ms sid)
          \<and> (\<forall>ranked\<in>set (success_body.media p).
                media_item.type ranked = Video \<or> media_item.type ranked = Gif
                \<longrightarrow> primary_is_first_variant ranked
                    \<and> media_item.download_url ranked = media_item.url ranked)"
    if h: "fst (handleScrapeRequestDirect rt tweetUrl) = \<lparr>status = st, body = Success p\<rparr>"
  proof -
    from handler_success_media[OF h] obtain ms sid
      where ms: "success_body.media p = enhanceMediaWithResolutions ms sid" by blast
    have "primary_is_first_variant ranked
          \<and> media_item.download_url ranked = media_item.url ranked"
      if r: "ranked \<in> set (success_body.media p)"
        and t: "media_item.type ranked = Video \<or> media_item.type ranked = Gif" for ranked
    proof -
      from r ms obtain i where i: "i \<in> set ms" "ranked = enhance_item i"
        by (auto simp: enhanceMediaWithResolutions_def)
      from t i(2) have "media_item.type i = Video \<or> media_item.type i = Gif"
        by (simp add: enhance_item_type)
      then show ?thesis unfolding i(2) by (rule enhance_item_primary)
    qed
    with ms show ?thesis by blast
  qed
  from a b show ?thesis by blast
qed

lemma syndication_one_photo:
  "fetchViaSyndicationAPI (runtime_of (Ok_json one_photo_data) b c) i
   = Some (syndication_result ''2025-01-01T00:00:00.000Z'' one_photo_data)"
  by (simp add: fetchViaSyndicationAPI_def runtime_of_def one_photo_data_def
      no_syndication_data_def)

lemma one_photo_media:
  "candidate.media (syndication_result n one_photo_data)
   = [syndication_photo_item
        \<lparr>syndication_photo.url = ''https://pbs.twimg.com/media/a.jpg'',
         width = Some 1200, height = Some 800\<rparr>]"
  by (simp add: syndication_result_def one_photo_data_def no_syndication_data_def)

lemma one_photo_created:
  "candidate.created_at (syndication_result ''2025-01-01T00:00:00.000Z'' one_photo_data)
   = Created_text ''2025-01-01T00:00:00.000Z''"
  by (simp add: syndication_result_def one_photo_data_def no_syndication_data_def or_else_def)

lemma one_photo_response:
  "\<exists>info. handleScrapeRequestDirect (runtime_of (Ok_json one_photo_data) Not_ok None)
             (Some status_url)
     = (\<lparr>status = 200,
         body = Success
           \<lparr>url = status_url, tweet_id = ''1234567890123'', method = ''api_a'',
            user = candidate.user (syndication_result ''2025-01-01T00:00:00.000Z'' one_photo_data),
            text = candidate.text (syndication_result ''2025-01-01T00:00:00.000Z'' one_photo_data),
            created_at = ''2025-01-01T00:00:00.000Z'',
            media =
              enhanceMediaWithResolutions
                (candidate.media (syndication_result ''2025-01-01T00:00:00.000Z'' one_photo_data))
                ''1234567890123'',
            media_count =
              length (candidate.media (syndication_result ''2025-01-01T00:00:00.000Z'' one_photo_data)),
            download_info = info\<rparr>\<rparr>,
        [Call_syndication ''1234567890123'', Call_fxtwitter ''1234567890123''])"
proof -
  let ?rt = "runtime_of (Ok_json one_photo_data) Not_ok None"
  let ?a = "syndication_result ''2025-01-01T00:00:00.000Z'' one_photo_data"
  have d: "toISOString ?rt (Date_string ''2025-01-01T00:00:00.000Z'')
           = Some ''2025-01-01T00:00:00.000Z''"
    by (simp add: runtime_of_def)
  obtain info where info: "generateDownloadInfo ?rt
             (?a\<lparr>candidate.media := enhanceMediaWithResolutions (candidate.media ?a) ''1234567890123'',
                candidate.method := ''api_a'',
                candidate.created_at := Created_text ''2025-01-01T00:00:00.000Z''\<rparr>)
             ''1234567890123'' = Some info"
    using generateDownloadInfo_text[OF _ _ d] by force
  have m: "candidate.media ?a \<noteq> []" by (simp add: one_photo_media)
  from handler_source_a[OF extract_status_url syndication_one_photo m one_photo_created info]
  show ?thesis by blast
qed

text \<open>
  Claim C5, as stated: the primary locator of every item of the response equals the
  locator of its first variant. It fails for a photo of Source A: the extractor gives the
  photo its own address as primary locator and the address with the suffix
  \<^verbatim>\<open>?format=jpg&name=orig\<close> as the locator of its only variant (lines 238-244), and
  the Ranker leaves photos alone.
\<close>

theorem photo_primary_locator_counterexample:
  "status (fst (handleScrapeRequestDirect (runtime_of (Ok_json one_photo_data) Not_ok None)
                  (Some status_url))) = 200
   \<and> success_body.media
        (payload (body (fst (handleScrapeRequestDirect
                               (runtime_of (Ok_json one_photo_data) Not_ok None)
                               (Some status_url)))))
      = [syndication_photo_item
           \<lparr>syndication_photo.url = ''https://pbs.twimg.com/media/a.jpg'',
            width = Some 1200, height = Some 800\<rparr>]
   \<and> media_item.url
        (syndication_photo_item
           \<lparr>syndication_photo.url = ''https://pbs.twimg.com/media/a.jpg'',
            width = Some 1200, height = Some 800\<rparr>)
      = Some ''https://pbs.twimg.com/media/a.jpg''
   \<and> map variant.url
        (media_item.variants
           (syndication_photo_item
              \<lparr>syndication_photo.url = ''https://pbs.twimg.com/media/a.jpg'',
               width = Some 1200, height = Some 800\<rparr>))
      = [Some ''https://pbs.twimg.com/media/a.jpg?format=jpg&name=orig'']
   \<and> \<not> primary_is_first_variant
          (syndication_photo_item
             \<lparr>syndication_photo.url = ''https://pbs.twimg.com/media/a.jpg'',
              width = Some 1200, height = Some 800\<rparr>)"
proof -
  from one_photo_response obtain info where
    "handleScrapeRequestDirect (runtime_of (Ok_json one_photo_data) Not_ok None) (Some status_url)
     = (\<lparr>status = 200,
         body = Success
           \<lparr>url = status_url, tweet_id = ''1234567890123'', method = ''api_a'',
            user = candidate.user (syndication_result ''2025-01-01T00:00:00.000Z'' one_photo_data),
            text = candidate.text (syndication_result ''2025-01-01T00:00:00.000Z'' one_photo_data),
            created_at = ''2025-01-01T00:00:00.000Z'',
            media =
              enhanceMediaWithResolutions
                (candidate.media (syndication_result ''2025-01-01T00:00:00.000Z'' one_photo_data))
                ''1234567890123'',
            media_count =
              length (candidate.media (syndication_result ''2025-01-01T00:00:00.000Z'' one_photo_data)),
            download_info = info\<rparr>\<rparr>,
        [Call_syndication ''1234567890123'', Call_fxtwitter ''1234567890123''])"
    by blast
  then show ?thesis
    by (simp add: one_photo_media enhanceMediaWithResolutions_def enhance_item_photo
        syndication_photo_item_def primary_is_first_variant_def)
qed



lemma res_a: "getResolutionFromUrl (Some ''https://video.twimg.com/ext_tw_video/1/pu/vid/640x360/a.mp4'') = Some ''640x360''"
  by (simp add: getResolutionFromUrl_def match_resolution_here_def is_digit_def)

lemma res_b: "getResolutionFromUrl (Some ''https://video.twimg.com/ext_tw_video/1/pu/vid/1920x1080/b.mp4'') = Some ''1920x1080''"
  by (simp add: getResolutionFromUrl_def match_resolution_here_def is_digit_def)

lemma two_variant_video_item:
  "syndication_video_item two_variant_video
   = \<lparr>media_item.type = Video,
      url = Some ''https://video.twimg.com/ext_tw_video/1/pu/vid/1920x1080/b.mp4'',
      download_url = Some ''https://video.twimg.com/ext_tw_video/1/pu/vid/1920x1080/b.mp4'',
      thumbnail_url = None,
      duration = None,
      width = Some 1920,
      height = Some 1080,
      size_str = Some ''1920x1080'',
      variants =
        [\<lparr>variant.url = Some ''https://video.twimg.com/ext_tw_video/1/pu/vid/1920x1080/b.mp4'',
          quality = ''1080p'', bitrate = Some 2176000, content_type = Some ''video/mp4'',
          resolution = ''1920x1080''\<rparr>,
         \<lparr>variant.url = Some ''https://video.twimg.com/ext_tw_video/1/pu/vid/640x360/a.mp4'',
          quality = ''360p'', bitrate = Some 832000, content_type = Some ''video/mp4'',
          resolution = ''640x360''\<rparr>],
      best_quality = Some ''1080p'',
      available_qualities = None,
      available_resolutions = None\<rparr>"
  by (simp add: syndication_video_item_def two_variant_video_def syndication_variant_of_def
      res_a res_b or_else_def js_sort_def by_pixels_def pixels_def parseResolution_def
      getQualityFromResolution_def js_index_def number_simps size_of_def show_dim_def
      digit_char_def)


lemma syndication_video_item_type: "media_item.type (syndication_video_item v) = Video"
  by (simp add: syndication_video_item_def Let_def split: option.splits list.splits)

lemma syndication_one_video:
  "fetchViaSyndicationAPI (runtime_of (Ok_json one_video_data) b c) i
   = Some (syndication_result ''2025-01-01T00:00:00.000Z'' one_video_data)"
  by (simp add: fetchViaSyndicationAPI_def runtime_of_def one_video_data_def
      no_syndication_data_def)

lemma one_video_media:
  "candidate.media (syndication_result n one_video_data) = [syndication_video_item two_variant_video]"
  by (simp add: syndication_result_def one_video_data_def no_syndication_data_def)

lemma one_video_created:
  "candidate.created_at (syndication_result ''2025-01-01T00:00:00.000Z'' one_video_data)
   = Created_text ''2025-01-01T00:00:00.000Z''"
  by (simp add: syndication_result_def one_video_data_def no_syndication_data_def or_else_def)

lemma fxtwitter_one_photo:
  "\<not> no_media (fetchViaFxtwitterAPI (runtime_of a (Ok_json fx_photo_data) c) i)"
  by (simp add: fetchViaFxtwitterAPI_def fxtwitter_result_def runtime_of_def fx_photo_data_def
      fx_media_item_def no_media_def or_else_def List.map_filter_simps)

lemma one_video_response:
  "\<exists>info. handleScrapeRequestDirect
             (runtime_of (Ok_json one_video_data) (Ok_json fx_photo_data) None) (Some status_url)
     = (\<lparr>status = 200,
         body = Success
           \<lparr>url = status_url, tweet_id = ''1234567890123'', method = ''api_a'',
            user = candidate.user (syndication_result ''2025-01-01T00:00:00.000Z'' one_video_data),
            text = candidate.text (syndication_result ''2025-01-01T00:00:00.000Z'' one_video_data),
            created_at = ''2025-01-01T00:00:00.000Z'',
            media =
              enhanceMediaWithResolutions
                (candidate.media (syndication_result ''2025-01-01T00:00:00.000Z'' one_video_data))
                ''1234567890123'',
            media_count =
              length (candidate.media (syndication_result ''2025-01-01T00:00:00.000Z'' one_video_data)),
            download_info = info\<rparr>\<rparr>,
        [Call_syndication ''1234567890123'', Call_fxtwitter ''1234567890123''])"
proof -
  let ?rt = "runtime_of (Ok_json one_video_data) (Ok_json fx_photo_data) None"
  let ?a = "syndication_result ''2025-01-01T00:00:00.000Z'' one_video_data"
  have d: "toISOString ?rt (Date_string ''2025-01-01T00:00:00.000Z'')
           = Some ''2025-01-01T00:00:00.000Z''"
    by (simp add: runtime_of_def)
  obtain info where info: "generateDownloadInfo ?rt
             (?a\<lparr>candidate.media := enhanceMediaWithResolutions (candidate.media ?a) ''1234567890123'',
                candidate.method := ''api_a'',
                candidate.created_at := Created_text ''2025-01-01T00:00:00.000Z''\<rparr>)
             ''1234567890123'' = Some info"
    using generateDownloadInfo_text[OF _ _ d] by force
  have m: "candidate.media ?a \<noteq> []" by (simp add: one_video_media)
  from handler_source_a[OF extract_status_url syndication_one_video m one_video_created info]
  show ?thesis by blast
qed

text \<open>
  The example of the specification for the priority of Source A: A returns one video
  with two variants and B returns one photo; the media list of the response is the
  ranked video of A.
\<close>

lemma merger_example_a_video_b_photo:
  "success_body.media
     (payload (body (fst (handleScrapeRequestDirect
                            (runtime_of (Ok_json one_video_data) (Ok_json fx_photo_data) None)
                            (Some status_url)))))
   = [enhance_item (syndication_video_item two_variant_video)]
   \<and> success_body.method
     (payload (body (fst (handleScrapeRequestDirect
                            (runtime_of (Ok_json one_video_data) (Ok_json fx_photo_data) None)
                            (Some status_url))))) = ''api_a''
   \<and> map resolution (media_item.variants (enhance_item (syndication_video_item two_variant_video)))
     = [''1920x1080'', ''640x360'']"
proof -
  have v: "map resolution (media_item.variants (enhance_item (syndication_video_item two_variant_video)))
     = [''1920x1080'', ''640x360'']"
    by (simp add: two_variant_video_item enhance_item_def Let_def js_sort_def by_pixels_def
        pixels_def parseResolution_def js_index_def number_simps)
  from one_video_response obtain info where
    "handleScrapeRequestDirect
             (runtime_of (Ok_json one_video_data) (Ok_json fx_photo_data) None) (Some status_url)
     = (\<lparr>status = 200,
         body = Success
           \<lparr>url = status_url, tweet_id = ''1234567890123'', method = ''api_a'',
            user = candidate.user (syndication_result ''2025-01-01T00:00:00.000Z'' one_video_data),
            text = candidate.text (syndication_result ''2025-01-01T00:00:00.000Z'' one_video_data),
            created_at = ''2025-01-01T00:00:00.000Z'',
            media =
              enhanceMediaWithResolutions
                (candidate.media (syndication_result ''2025-01-01T00:00:00.000Z'' one_video_data))
                ''1234567890123'',
            media_count =
              length (candidate.media (syndication_result ''2025-01-01T00:00:00.000Z'' one_video_data)),
            download_info = info\<rparr>\<rparr>,
        [Call_syndication ''1234567890123'', Call_fxtwitter ''1234567890123''])"
    by blast
  then show ?thesis using v
    by (simp add: one_video_media enhanceMediaWithResolutions_def)
qed

theorem ranked_items_primary_locator_witness:
  "media_item.type (syndication_video_item two_variant_video) = Video
   \<and> primary_is_first_variant (enhance_item (syndication_video_item two_variant_video))
   \<and> status (fst (handleScrapeRequestDirect
                    (runtime_of (Ok_json one_video_data) (Ok_json fx_photo_data) None)
                    (Some status_url))) = 200
   \<and> list_all primary_is_first_variant
        (success_body.media
           (payload (body (fst (handleScrapeRequestDirect
                                  (runtime_of (Ok_json one_video_data) (Ok_json fx_photo_data) None)
                                  (Some status_url))))))"
proof -
  let ?h = "fst (handleScrapeRequestDirect
                    (runtime_of (Ok_json one_video_data) (Ok_json fx_photo_data) None)
                    (Some status_url))"
  have t: "media_item.type (syndication_video_item two_variant_video) = Video"
    by (rule syndication_video_item_type)
  have s: "?h = \<lparr>status = 200, body = Success (payload (body ?h))\<rparr>"
    using one_video_response by auto
  have m: "success_body.media (payload (body ?h))
           = [enhance_item (syndication_video_item two_variant_video)]"
    using merger_example_a_video_b_photo by simp
  have st: "status ?h = 200"
    using one_video_response by auto
  from ranked_items_primary_locator[of "syndication_video_item two_variant_video"
      "runtime_of (Ok_json one_video_data) (Ok_json fx_photo_data) None" "Some status_url"
      200 "payload (body ?h)"] t s m st
  show ?thesis by (simp add: enhance_item_type)
qed

lemma syndication_empty_photos:
  "fetchViaSyndicationAPI (runtime_of (Ok_json empty_photos_data) b c) i
   = Some (syndication_result ''2025-01-01T00:00:00.000Z'' empty_photos_data)"
  by (simp add: fetchViaSyndicationAPI_def runtime_of_def empty_photos_data_def
      no_syndication_data_def)

lemma empty_photos_media: "candidate.media (syndication_result n empty_photos_data) = []"
  by (simp add: syndication_result_def empty_photos_data_def no_syndication_data_def)

text \<open>
  Claim C1 at an input where the code departs from it. Source A answers with a payload
  whose \<^verbatim>\<open>photos\<close> array is empty, so its result is present but has no media;
  Source B has a photo; Source C finds nothing. The first source in the order A, B, C
  with a media item is B, but line 143 takes the result of A because it is not null,
  line 145 then replaces it by the result of C, and the request ends in status 404.
\<close>

theorem merger_skips_source_b:
  "fetchViaSyndicationAPI (runtime_of (Ok_json empty_photos_data) (Ok_json fx_photo_data) None)
     ''1234567890123''
   = Some (syndication_result ''2025-01-01T00:00:00.000Z'' empty_photos_data)
   \<and> candidate.media (syndication_result ''2025-01-01T00:00:00.000Z'' empty_photos_data) = []
   \<and> \<not> no_media (fetchViaFxtwitterAPI
                    (runtime_of (Ok_json empty_photos_data) (Ok_json fx_photo_data) None)
                    ''1234567890123'')
   \<and> handleScrapeRequestDirect
       (runtime_of (Ok_json empty_photos_data) (Ok_json fx_photo_data) None) (Some status_url)
     = (\<lparr>status = 404, body = Failure ''Content not available'' (Some ''1234567890123'')\<rparr>,
        [Call_syndication ''1234567890123'', Call_fxtwitter ''1234567890123'',
         Call_html ''1234567890123''])"
proof -
  have h: "handleScrapeRequestDirect
       (runtime_of (Ok_json empty_photos_data) (Ok_json fx_photo_data) None) (Some status_url)
     = (\<lparr>status = 404, body = Failure ''Content not available'' (Some ''1234567890123'')\<rparr>,
        [Call_syndication ''1234567890123'', Call_fxtwitter ''1234567890123'',
         Call_html ''1234567890123''])"
    by (simp add: handleScrapeRequestDirect_def extract_status_url syndication_empty_photos
        empty_photos_media no_media_def html_runtime_of Let_def)
  from h syndication_empty_photos empty_photos_media fxtwitter_one_photo show ?thesis by simp
qed


end
